theory Spec2Isabelle
  imports Complex_Main
begin

text \<open>
  A shallow embedding of the core of the ICT trading agent: the risk manager's sizing and
  validation, the three pattern detectors, the agent's trend classification and signal
  generation, and the backtester's simulation loop, followed by the properties of them
  that are proved or refuted here. Each definition follows the Python function whose
  name it bears.
\<close>

section \<open>Python values\<close>

text \<open>
  Python floats are read as real numbers: rounding, infinities and NaN are outside the
  model, except where the source branches on them (the mean of an empty slice, the
  conversion of an infinite quotient to an integer), which is written out below.
  \<^verbatim>\<open>int(x)\<close> on a float truncates toward zero.
\<close>

datatype py_error = ZeroDivisionError | OverflowError | ValueError

definition py_int :: "real \<Rightarrow> int" where
  "py_int x = (if 0 \<le> x then \<lfloor>x\<rfloor> else \<lceil>x\<rceil>)"

section \<open>Risk manager (risk\_manager.py)\<close>

text \<open>The \<^verbatim>\<open>Position\<close> dataclass.\<close>

record position =
  pos_symbol :: string
  pos_direction :: string
  pos_entry_price :: real
  pos_quantity :: int
  pos_stop_loss :: real
  pos_take_profit :: real
  pos_entry_date :: string

text \<open>The configuration dictionary, with the eight keys of \<^verbatim>\<open>_default_config\<close>.\<close>

record risk_config =
  risk_per_trade :: real
  max_positions :: int
  max_portfolio_risk :: real
  max_position_size :: real
  stop_loss_atr_multiplier :: real
  take_profit_ratio :: real
  max_daily_loss :: real
  max_drawdown :: real

definition default_risk_config :: risk_config where
  "default_risk_config =
     \<lparr>risk_per_trade = 0.02, max_positions = 3, max_portfolio_risk = 0.06,
      max_position_size = 0.3, stop_loss_atr_multiplier = 2, take_profit_ratio = 2,
      max_daily_loss = 0.05, max_drawdown = 0.20\<rparr>"

text \<open>The state of a \<^verbatim>\<open>RiskManager\<close>: its configuration and its position registry.\<close>

record risk_manager =
  rm_config :: risk_config
  rm_positions :: "position list"

text \<open>
  \<^verbatim>\<open>risk_pct = risk_per_trade or self.config['risk_per_trade']\<close>: an argument that is
  \<^verbatim>\<open>None\<close> or zero is falsy and gives way to the configured value.
\<close>

definition risk_pct :: "risk_config \<Rightarrow> real option \<Rightarrow> real" where
  "risk_pct cfg rpt =
     (case rpt of None \<Rightarrow> risk_per_trade cfg
      | Some r \<Rightarrow> if r \<noteq> 0 then r else risk_per_trade cfg)"

text \<open>
  \<^verbatim>\<open>calculate_position_size\<close>. The guard on the price risk comes first; the division by
  the entry price raises when the entry price is zero.
\<close>

definition calculate_position_size ::
  "risk_config \<Rightarrow> real \<Rightarrow> real \<Rightarrow> real \<Rightarrow> real option \<Rightarrow> py_error + int" where
  "calculate_position_size cfg capital entry_price stop_loss rpt =
     (let risk_amount = capital * risk_pct cfg rpt;
          price_risk = \<bar>entry_price - stop_loss\<bar>
      in if price_risk \<le> 0 then Inr 0
         else
           let position_size = py_int (risk_amount / price_risk)
           in if entry_price = 0 then Inl ZeroDivisionError
              else
                let max_position = py_int ((capital * max_position_size cfg) / entry_price);
                    position_size = min position_size max_position;
                    total_cost = real_of_int position_size * entry_price
                in if total_cost > capital then Inr (py_int (capital / entry_price))
                   else Inr position_size)"

text \<open>\<^verbatim>\<open>_calculate_portfolio_risk\<close>: the loop adds one risk fraction per position.\<close>

definition position_risk_pct :: "real \<Rightarrow> position \<Rightarrow> real" where
  "position_risk_pct capital p =
     (let risk = \<bar>pos_entry_price p - pos_stop_loss p\<bar> * real_of_int (pos_quantity p)
      in if capital > 0 then risk / capital else 0)"

definition calculate_portfolio_risk :: "position list \<Rightarrow> real \<Rightarrow> real" where
  "calculate_portfolio_risk ps capital =
     foldl (\<lambda>total_risk p. total_risk + position_risk_pct capital p) 0 ps"

text \<open>
  A signal handed to \<^verbatim>\<open>validate_trade\<close> is a dictionary read with
  \<^verbatim>\<open>signal.get(key, 0)\<close>; only its numeric entries are read.
\<close>

type_synonym signal_dict = "string \<rightharpoonup> real"

definition dict_get :: "signal_dict \<Rightarrow> string \<Rightarrow> real \<Rightarrow> real" where
  "dict_get d k dflt = (case d k of None \<Rightarrow> dflt | Some v \<Rightarrow> v)"

text \<open>
  The reason returned by \<^verbatim>\<open>validate_trade\<close>, one constructor per message:
  "Maximum number of positions reached", "Insufficient capital for position",
  "Would exceed maximum portfolio risk", "Risk/reward ratio r below minimum m" (with the
  two numbers it formats) and "Trade validated".
\<close>

datatype reason =
    MaxPositionsReached
  | InsufficientCapital
  | ExceedsPortfolioRisk
  | RiskRewardBelow real real
  | TradeValidated

text \<open>
  \<^verbatim>\<open>positions = current_positions or self.positions\<close>: \<^verbatim>\<open>None\<close> and the empty list
  are both falsy.
\<close>

definition effective_positions :: "risk_manager \<Rightarrow> position list option \<Rightarrow> position list" where
  "effective_positions rm current_positions =
     (case current_positions of None \<Rightarrow> rm_positions rm
      | Some ps \<Rightarrow> if ps \<noteq> [] then ps else rm_positions rm)"

definition validate_trade ::
  "risk_manager \<Rightarrow> signal_dict \<Rightarrow> real \<Rightarrow> position list option \<Rightarrow> py_error + (bool \<times> reason)" where
  "validate_trade rm signal capital current_positions =
     (let cfg = rm_config rm;
          positions = effective_positions rm current_positions
      in if int (length positions) \<ge> max_positions cfg then Inr (False, MaxPositionsReached)
         else
           let entry_price = dict_get signal ''price'' 0;
               stop_loss = dict_get signal ''stop_loss'' 0
           in case calculate_position_size cfg capital entry_price stop_loss None of
                Inl e \<Rightarrow> Inl e
              | Inr position_size \<Rightarrow>
                  if position_size \<le> 0 then Inr (False, InsufficientCapital)
                  else
                    let current_risk = calculate_portfolio_risk positions capital;
                        new_risk = risk_per_trade cfg
                    in if current_risk + new_risk > max_portfolio_risk cfg
                       then Inr (False, ExceedsPortfolioRisk)
                       else
                         let risk = \<bar>entry_price - stop_loss\<bar>;
                             reward = \<bar>dict_get signal ''take_profit'' 0 - entry_price\<bar>
                         in if risk > 0 \<and> reward / risk < take_profit_ratio cfg
                            then Inr (False, RiskRewardBelow (reward / risk) (take_profit_ratio cfg))
                            else Inr (True, TradeValidated))"

section \<open>Price data (data\_handler.py)\<close>

text \<open>
  One row of an OHLCV frame, with its index entry. A frame is its rows together with
  whether it carries a \<^verbatim>\<open>Volume\<close> column (the strength functions test
  \<^verbatim>\<open>'Volume' in df.columns\<close>); the empty frame has no rows.
\<close>

record bar =
  timestamp :: int
  Open :: real
  High :: real
  Low :: real
  Close :: real
  Volume :: real

record data_frame =
  has_volume :: bool
  rows :: "bar list"

definition len :: "data_frame \<Rightarrow> nat" where
  "len df = length (rows df)"

definition iloc :: "data_frame \<Rightarrow> nat \<Rightarrow> bar" where
  "iloc df i = rows df ! i"

text \<open>
  Python slicing \<^verbatim>\<open>xs[start:stop]\<close>: a negative bound counts from the end, and both
  bounds are clipped to the list. \<^verbatim>\<open>df.iloc[index-10:index]\<close> with \<^verbatim>\<open>index < 10\<close>
  therefore starts near the end of the frame and is usually empty.
\<close>

definition slice_bound :: "nat \<Rightarrow> int \<Rightarrow> nat" where
  "slice_bound n k = (if k < 0 then nat (max 0 (int n + k)) else min n (nat k))"

definition py_slice :: "'a list \<Rightarrow> int \<Rightarrow> int \<Rightarrow> 'a list" where
  "py_slice xs start stop =
     (let lo = slice_bound (length xs) start; hi = slice_bound (length xs) stop
      in take (hi - lo) (drop lo xs))"

text \<open>The mean of a series; of an empty series it is NaN, here \<open>None\<close>.\<close>

definition series_mean :: "real list \<Rightarrow> real option" where
  "series_mean xs = (if xs = [] then None else Some (sum_list xs / real (length xs)))"

text \<open>\<^verbatim>\<open>x > avg * 1.5\<close>, false when the average is NaN.\<close>

definition volume_surge :: "real \<Rightarrow> real option \<Rightarrow> bool" where
  "volume_surge current_volume avg_volume =
     (case avg_volume of None \<Rightarrow> False | Some a \<Rightarrow> current_volume > a * 1.5)"

text \<open>
  The data handler serves frames from an external provider. It is a parameter here: a
  trailing-period request \<^verbatim>\<open>get_price_data(symbol, period, interval)\<close>, whose period
  \<^verbatim>\<open>f"{n}d"\<close> is given by its number of days, and a date-range request
  \<^verbatim>\<open>get_historical_data(symbol, start_date, end_date, interval)\<close>. A failed request
  returns the empty frame. Equal requests get equal answers within one run.
\<close>

record data_handler =
  get_price_data :: "string \<Rightarrow> nat \<Rightarrow> string \<Rightarrow> data_frame"
  get_historical_data :: "string \<Rightarrow> string \<Rightarrow> string \<Rightarrow> string \<Rightarrow> data_frame"

section \<open>Pattern detector (pattern\_detector.py)\<close>

text \<open>
  The agent's configuration dictionary. \<^verbatim>\<open>lookback_period\<close> is read by index, the
  three pattern parameters with \<^verbatim>\<open>config.get(key, default)\<close>.
\<close>

record agent_config =
  lookback_period :: nat
  fvg_min_size :: "real option"
  orderblock_strength :: "int option"
  liquidity_threshold :: "real option"

definition default_config :: agent_config where
  "default_config =
     \<lparr>lookback_period = 100, fvg_min_size = Some 0.001, orderblock_strength = Some 3,
      liquidity_threshold = Some 0.05\<rparr>"

definition get_or :: "'a option \<Rightarrow> 'a \<Rightarrow> 'a" where
  "get_or v dflt = (case v of None \<Rightarrow> dflt | Some x \<Rightarrow> x)"

text \<open>The three pattern dictionaries, one record per shape.\<close>

record fvg =
  fvg_type :: string
  fvg_direction :: string
  fvg_timestamp :: int
  gap_high :: real
  gap_low :: real
  gap_size :: real
  fvg_entry_price :: real
  fvg_stop_loss :: real
  fvg_take_profit :: real
  fvg_strength :: real
  filled :: bool

record order_block =
  ob_type :: string
  ob_direction :: string
  ob_timestamp :: int
  block_high :: real
  block_low :: real
  ob_entry_price :: real
  ob_stop_loss :: real
  ob_take_profit :: real
  ob_strength :: real
  tested :: bool

record liquidity_pool =
  lp_type :: string
  level_type :: string
  price_level :: real
  lp_timestamp :: int
  touches :: nat
  lp_strength :: real
  lp_direction :: string

text \<open>\<^verbatim>\<open>_calculate_fvg_strength(df, index, gap_size)\<close>.\<close>

definition calculate_fvg_strength :: "data_frame \<Rightarrow> nat \<Rightarrow> real \<Rightarrow> real" where
  "calculate_fvg_strength df index gap =
     (let strength = min (gap * 100) 0.5;
          strength =
            (if has_volume df \<and> index < len df
             then
               let avg_volume = series_mean (map Volume (py_slice (rows df) (int index - 10) (int index)));
                   current_volume = Volume (iloc df index)
               in if volume_surge current_volume avg_volume then strength + 0.2 else strength
             else strength);
          strength =
            (if index \<ge> 3
             then
               let recent_closes = map Close (py_slice (rows df) (int index - 3) (int index + 1))
               in if length recent_closes \<ge> 3
                  then
                    let momentum = (last recent_closes - hd recent_closes) / hd recent_closes
                    in strength + \<bar>momentum\<bar> * 5
                  else strength
             else strength)
      in min strength 1.0)"

text \<open>
  The body of the loop of \<^verbatim>\<open>detect_fair_value_gaps\<close> at index \<open>i\<close>: the dictionary it
  appends, if any. The bullish test comes first; the bearish one is its \<^verbatim>\<open>elif\<close>.
\<close>

definition fvg_at :: "agent_config \<Rightarrow> data_frame \<Rightarrow> nat \<Rightarrow> fvg option" where
  "fvg_at cfg df i =
     (let min_gap_size = get_or (fvg_min_size cfg) 0.001;
          prev_candle = iloc df (i - 1);
          current_candle = iloc df i;
          next_candle = iloc df (i + 1)
      in if Low prev_candle > High next_candle \<and> Close current_candle > Open current_candle
         then
           let gap = (Low prev_candle - High next_candle) / High next_candle
           in if gap \<ge> min_gap_size
              then Some
                \<lparr>fvg_type = ''Fair Value Gap'', fvg_direction = ''BULLISH'',
                 fvg_timestamp = timestamp current_candle,
                 gap_high = Low prev_candle, gap_low = High next_candle, gap_size = gap,
                 fvg_entry_price = High next_candle,
                 fvg_stop_loss = Low prev_candle - (Low prev_candle * 0.001),
                 fvg_take_profit = Low prev_candle + (gap * Low prev_candle * 2),
                 fvg_strength = calculate_fvg_strength df i gap, filled = False\<rparr>
              else None
         else if High prev_candle < Low next_candle \<and> Close current_candle < Open current_candle
         then
           let gap = (Low next_candle - High prev_candle) / High prev_candle
           in if gap \<ge> min_gap_size
              then Some
                \<lparr>fvg_type = ''Fair Value Gap'', fvg_direction = ''BEARISH'',
                 fvg_timestamp = timestamp current_candle,
                 gap_high = Low next_candle, gap_low = High prev_candle, gap_size = gap,
                 fvg_entry_price = High prev_candle,
                 fvg_stop_loss = Low next_candle + (Low next_candle * 0.001),
                 fvg_take_profit = Low next_candle - (gap * Low next_candle * 2),
                 fvg_strength = calculate_fvg_strength df i gap, filled = False\<rparr>
              else None
         else None)"

definition detect_fair_value_gaps :: "agent_config \<Rightarrow> data_frame \<Rightarrow> fvg list" where
  "detect_fair_value_gaps cfg df =
     (if len df < 3 then [] else List.map_filter (fvg_at cfg df) [1 ..< len df - 1])"

text \<open>
  \<^verbatim>\<open>all(closes.iloc[i] > closes.iloc[i-1] for i in range(1, len(closes)))\<close> and its
  mirror image.
\<close>

fun strictly_increasing :: "real list \<Rightarrow> bool" where
  "strictly_increasing (x # y # ys) = (y > x \<and> strictly_increasing (y # ys))"
| "strictly_increasing _ = True"

fun strictly_decreasing :: "real list \<Rightarrow> bool" where
  "strictly_decreasing (x # y # ys) = (y < x \<and> strictly_decreasing (y # ys))"
| "strictly_decreasing _ = True"

definition is_strong_bullish_move :: "data_frame \<Rightarrow> nat \<Rightarrow> int \<Rightarrow> bool" where
  "is_strong_bullish_move df index min_strength =
     (if int index < min_strength \<or> index \<ge> len df then False
      else strictly_increasing
             (map Close (py_slice (rows df) (int index - min_strength) (int index + 1))))"

definition is_strong_bearish_move :: "data_frame \<Rightarrow> nat \<Rightarrow> int \<Rightarrow> bool" where
  "is_strong_bearish_move df index min_strength =
     (if int index < min_strength \<or> index \<ge> len df then False
      else strictly_decreasing
             (map Close (py_slice (rows df) (int index - min_strength) (int index + 1))))"

text \<open>\<^verbatim>\<open>min\<close> and \<^verbatim>\<open>max\<close> of a series; the slices they are applied to are not empty.\<close>

fun py_min :: "real list \<Rightarrow> real" where
  "py_min [] = 0"
| "py_min (x # xs) = foldl min x xs"

fun py_max :: "real list \<Rightarrow> real" where
  "py_max [] = 0"
| "py_max (x # xs) = foldl max x xs"

text \<open>\<^verbatim>\<open>_calculate_orderblock_strength(df, index)\<close>.\<close>

definition calculate_orderblock_strength :: "data_frame \<Rightarrow> nat \<Rightarrow> real" where
  "calculate_orderblock_strength df index =
     (if index < 5 \<or> int index \<ge> int (len df) - 5 then 0.5
      else
        let pre_move = map Close (py_slice (rows df) (int index - 5) (int index));
            post_move = map Close (py_slice (rows df) (int index) (int index + 5))
        in if length pre_move = 0 \<or> length post_move = 0 then 0.5
           else
             let price_change = \<bar>last post_move - hd pre_move\<bar> / hd pre_move;
                 strength = min (price_change * 10) 0.8;
                 strength =
                   (if has_volume df
                    then
                      let avg_volume =
                            series_mean (map Volume (py_slice (rows df) (int index - 20) (int index)));
                          peak_volume = Volume (iloc df index)
                      in if volume_surge peak_volume avg_volume then strength + 0.2 else strength
                    else strength)
             in min strength 1.0)"

text \<open>The body of the loop of \<^verbatim>\<open>detect_order_blocks\<close> at index \<open>i\<close>.\<close>

definition ob_at :: "agent_config \<Rightarrow> data_frame \<Rightarrow> nat \<Rightarrow> order_block option" where
  "ob_at cfg df i =
     (let min_strength = get_or (orderblock_strength cfg) 3;
          ob_low = py_min (map Low (py_slice (rows df) (int i - 5) (int i + 1)));
          ob_high = py_max (map High (py_slice (rows df) (int i - 5) (int i + 1)))
      in if is_strong_bullish_move df i min_strength
         then Some
           \<lparr>ob_type = ''Order Block'', ob_direction = ''BULLISH'',
            ob_timestamp = timestamp (iloc df i),
            block_high = ob_high, block_low = ob_low,
            ob_entry_price = ob_low,
            ob_stop_loss = ob_low - ((ob_high - ob_low) * 0.5),
            ob_take_profit = ob_high + ((ob_high - ob_low) * 2),
            ob_strength = calculate_orderblock_strength df i, tested = False\<rparr>
         else if is_strong_bearish_move df i min_strength
         then Some
           \<lparr>ob_type = ''Order Block'', ob_direction = ''BEARISH'',
            ob_timestamp = timestamp (iloc df i),
            block_high = ob_high, block_low = ob_low,
            ob_entry_price = ob_high,
            ob_stop_loss = ob_high + ((ob_high - ob_low) * 0.5),
            ob_take_profit = ob_low - ((ob_high - ob_low) * 2),
            ob_strength = calculate_orderblock_strength df i, tested = False\<rparr>
         else None)"

definition detect_order_blocks :: "agent_config \<Rightarrow> data_frame \<Rightarrow> order_block list" where
  "detect_order_blocks cfg df =
     (if len df < 20 then [] else List.map_filter (ob_at cfg df) [10 ..< len df - 10])"

text \<open>
  \<^verbatim>\<open>detect_liquidity_pools\<close>. For a base index \<open>i\<close> the inner loop collects the indices
  \<open>j\<close> of the 40 neighbours whose level is within the tolerance of the base level.
\<close>

definition equal_levels :: "real list \<Rightarrow> real \<Rightarrow> nat \<Rightarrow> nat list" where
  "equal_levels levels tolerance i =
     (let base = levels ! i
      in filter (\<lambda>j. j \<noteq> i \<and> \<bar>levels ! j - base\<bar> / base \<le> tolerance) [i - 20 ..< i + 21])"

definition resistance_at :: "data_frame \<Rightarrow> real \<Rightarrow> nat \<Rightarrow> liquidity_pool option" where
  "resistance_at df tolerance i =
     (let highs = map High (rows df);
          equal_highs = equal_levels highs tolerance i
      in if length equal_highs \<ge> 2
         then Some
           \<lparr>lp_type = ''Liquidity Pool'', level_type = ''RESISTANCE'',
            price_level = highs ! i, lp_timestamp = timestamp (iloc df i),
            touches = length equal_highs + 1,
            lp_strength = real (length equal_highs) / 10.0,
            lp_direction = ''BEARISH''\<rparr>
         else None)"

definition support_at :: "data_frame \<Rightarrow> real \<Rightarrow> nat \<Rightarrow> liquidity_pool option" where
  "support_at df tolerance i =
     (let lows = map Low (rows df);
          equal_lows = equal_levels lows tolerance i
      in if length equal_lows \<ge> 2
         then Some
           \<lparr>lp_type = ''Liquidity Pool'', level_type = ''SUPPORT'',
            price_level = lows ! i, lp_timestamp = timestamp (iloc df i),
            touches = length equal_lows + 1,
            lp_strength = real (length equal_lows) / 10.0,
            lp_direction = ''BULLISH''\<rparr>
         else None)"

definition detect_liquidity_pools :: "agent_config \<Rightarrow> data_frame \<Rightarrow> liquidity_pool list" where
  "detect_liquidity_pools cfg df =
     (if len df < 50 then []
      else
        let tolerance = get_or (liquidity_threshold cfg) 0.05
        in List.map_filter (resistance_at df tolerance) [20 ..< len df - 20]
           @ List.map_filter (support_at df tolerance) [20 ..< len df - 20])"

section \<open>Trading agent (ict\_agent.py)\<close>

text \<open>
  Strings. \<^verbatim>\<open>a in b\<close> on two strings is the substring test, and \<^verbatim>\<open>s.upper()\<close>
  maps the letters a to z to A to Z.
\<close>

fun starts_with :: "string \<Rightarrow> string \<Rightarrow> bool" where
  "starts_with [] ys = True"
| "starts_with (x # xs) [] = False"
| "starts_with (x # xs) (y # ys) = (x = y \<and> starts_with xs ys)"

fun str_in :: "string \<Rightarrow> string \<Rightarrow> bool" where
  "str_in xs [] = (xs = [])"
| "str_in xs (y # ys) = (starts_with xs (y # ys) \<or> str_in xs ys)"

definition upper_char :: "char \<Rightarrow> char" where
  "upper_char c =
     (case map_of (zip ''abcdefghijklmnopqrstuvwxyz'' ''ABCDEFGHIJKLMNOPQRSTUVWXYZ'') c of
        None \<Rightarrow> c | Some u \<Rightarrow> u)"

definition upper :: "string \<Rightarrow> string" where
  "upper s = map upper_char s"

text \<open>A swing point dictionary, and the result of \<^verbatim>\<open>_identify_swing_points\<close>.\<close>

record swing_point =
  sp_index :: nat
  sp_price :: real
  sp_timestamp :: int

record swing_points =
  swing_highs :: "swing_point list"
  swing_lows :: "swing_point list"

definition is_swing_high :: "data_frame \<Rightarrow> nat \<Rightarrow> nat \<Rightarrow> bool" where
  "is_swing_high df window i =
     list_all (\<lambda>j. High (iloc df i) > High (iloc df j))
       (filter (\<lambda>j. j \<noteq> i) [i - window ..< i + window + 1])"

definition is_swing_low :: "data_frame \<Rightarrow> nat \<Rightarrow> nat \<Rightarrow> bool" where
  "is_swing_low df window i =
     list_all (\<lambda>j. Low (iloc df i) < Low (iloc df j))
       (filter (\<lambda>j. j \<noteq> i) [i - window ..< i + window + 1])"

definition identify_swing_points :: "data_frame \<Rightarrow> nat \<Rightarrow> swing_points" where
  "identify_swing_points df window =
     \<lparr>swing_highs =
        map (\<lambda>i. \<lparr>sp_index = i, sp_price = High (iloc df i), sp_timestamp = timestamp (iloc df i)\<rparr>)
          (filter (is_swing_high df window) [window ..< len df - window]),
      swing_lows =
        map (\<lambda>i. \<lparr>sp_index = i, sp_price = Low (iloc df i), sp_timestamp = timestamp (iloc df i)\<rparr>)
          (filter (is_swing_low df window) [window ..< len df - window])\<rparr>"

text \<open>\<^verbatim>\<open>_determine_trend\<close>, on the last five swing highs and the last five swing lows.\<close>

definition determine_trend :: "swing_points \<Rightarrow> string" where
  "determine_trend sp =
     (let highs = map sp_price (py_slice (swing_highs sp) (- 5) (int (length (swing_highs sp))));
          lows = map sp_price (py_slice (swing_lows sp) (- 5) (int (length (swing_lows sp))))
      in if length highs < 2 \<or> length lows < 2 then ''SIDEWAYS''
         else if strictly_increasing highs \<and> strictly_increasing lows then ''UPTREND''
         else if strictly_decreasing highs \<and> strictly_decreasing lows then ''DOWNTREND''
         else ''SIDEWAYS'')"

text \<open>
  The clock: \<^verbatim>\<open>datetime.now().isoformat()\<close> is read once by the structure analysis and
  once for every signal built. The readings are a parameter, \<open>clock k\<close> being the
  \<open>k\<close>-th reading of one signal generation.
\<close>

type_synonym clock = "nat \<Rightarrow> string"

text \<open>
  The result of \<^verbatim>\<open>analyze_market_structure\<close>: the error dictionary for an empty frame,
  or the analysis (the two structure-break lists are always empty in the source).
\<close>

datatype market_structure =
    StructureError string
  | Structure string string swing_points string

definition analyze_market_structure ::
  "data_handler \<Rightarrow> agent_config \<Rightarrow> clock \<Rightarrow> string \<Rightarrow> market_structure" where
  "analyze_market_structure dh cfg clk symbol =
     (let df = get_price_data dh symbol (lookback_period cfg) ''1h''
      in if rows df = [] then StructureError ''No data available''
         else
           let swing = identify_swing_points df 5
           in Structure symbol (determine_trend swing) swing (clk 0))"

text \<open>\<^verbatim>\<open>market_structure.get("trend_direction", "SIDEWAYS")\<close>.\<close>

definition trend_direction :: "market_structure \<Rightarrow> string" where
  "trend_direction ms =
     (case ms of StructureError _ \<Rightarrow> ''SIDEWAYS'' | Structure _ trend _ _ \<Rightarrow> trend)"

text \<open>
  The keys of a pattern dictionary that the signal generator reads: \<^verbatim>\<open>strength\<close> and
  \<^verbatim>\<open>volume_confirmation\<close> with \<^verbatim>\<open>get\<close> (so they may be absent), \<^verbatim>\<open>direction\<close> by
  index. The detectors set no \<^verbatim>\<open>volume_confirmation\<close> key.
\<close>

record pattern_keys =
  pk_strength :: "real option"
  pk_direction :: string
  pk_volume_confirmation :: "bool option"

definition fvg_keys :: "fvg \<Rightarrow> pattern_keys" where
  "fvg_keys f =
     \<lparr>pk_strength = Some (fvg_strength f), pk_direction = fvg_direction f,
      pk_volume_confirmation = None\<rparr>"

definition ob_keys :: "order_block \<Rightarrow> pattern_keys" where
  "ob_keys b =
     \<lparr>pk_strength = Some (ob_strength b), pk_direction = ob_direction b,
      pk_volume_confirmation = None\<rparr>"

text \<open>\<^verbatim>\<open>_is_valid_fvg_signal\<close> and \<^verbatim>\<open>_is_valid_orderblock_signal\<close> have the same body.\<close>

definition is_valid_signal :: "string \<Rightarrow> market_structure \<Rightarrow> bool" where
  "is_valid_signal direction ms =
     (let trend = trend_direction ms
      in if trend = ''UPTREND'' \<and> direction = ''BULLISH'' then True
         else if trend = ''DOWNTREND'' \<and> direction = ''BEARISH'' then True
         else False)"

text \<open>\<^verbatim>\<open>_calculate_signal_strength(pattern, market_structure)\<close>.\<close>

definition calculate_signal_strength :: "pattern_keys \<Rightarrow> market_structure \<Rightarrow> real" where
  "calculate_signal_strength pattern ms =
     (let base_strength = get_or (pk_strength pattern) 0.5;
          trend = trend_direction ms;
          base_strength =
            (if trend \<noteq> ''SIDEWAYS'' \<and> str_in (upper (pk_direction pattern)) trend
             then base_strength + 0.2 else base_strength);
          base_strength =
            (if get_or (pk_volume_confirmation pattern) False
             then base_strength + 0.1 else base_strength)
      in min base_strength 1.0)"

text \<open>The signal dictionary built by \<^verbatim>\<open>generate_signals\<close>.\<close>

record signal =
  sig_type :: string
  sig_direction :: string
  sig_price :: real
  sig_stop_loss :: real
  sig_take_profit :: real
  sig_strength :: real
  sig_timestamp :: string
  sig_pattern :: string

definition fvg_signal :: "market_structure \<Rightarrow> string \<Rightarrow> fvg \<Rightarrow> signal" where
  "fvg_signal ms now f =
     \<lparr>sig_type = ''FVG_ENTRY'', sig_direction = fvg_direction f,
      sig_price = fvg_entry_price f, sig_stop_loss = fvg_stop_loss f,
      sig_take_profit = fvg_take_profit f,
      sig_strength = calculate_signal_strength (fvg_keys f) ms,
      sig_timestamp = now, sig_pattern = ''Fair Value Gap''\<rparr>"

definition ob_signal :: "market_structure \<Rightarrow> string \<Rightarrow> order_block \<Rightarrow> signal" where
  "ob_signal ms now b =
     \<lparr>sig_type = ''ORDERBLOCK_ENTRY'', sig_direction = ob_direction b,
      sig_price = ob_entry_price b, sig_stop_loss = ob_stop_loss b,
      sig_take_profit = ob_take_profit b,
      sig_strength = calculate_signal_strength (ob_keys b) ms,
      sig_timestamp = now, sig_pattern = ''Order Block''\<rparr>"

text \<open>
  \<^verbatim>\<open>sorted(signals, key=lambda x: x["strength"], reverse=True)\<close>: descending by
  strength, signals of equal strength keeping their order.
\<close>

fun insert_by_strength :: "signal \<Rightarrow> signal list \<Rightarrow> signal list" where
  "insert_by_strength s [] = [s]"
| "insert_by_strength s (t # ts) =
     (if sig_strength t > sig_strength s then t # insert_by_strength s ts else s # t # ts)"

definition sorted_by_strength :: "signal list \<Rightarrow> signal list" where
  "sorted_by_strength xs = foldr insert_by_strength xs []"

text \<open>
  \<^verbatim>\<open>generate_signals(symbol)\<close>. Each of the two detectors and the structure analysis
  fetches its frame from the data handler; no liquidity pool is detected here. The
  \<open>k\<close>-th signal built takes the clock reading \<open>k + 1\<close>.
\<close>

definition unsorted_signals ::
  "data_handler \<Rightarrow> agent_config \<Rightarrow> clock \<Rightarrow> string \<Rightarrow> signal list" where
  "unsorted_signals dh cfg clk symbol =
     (let fvgs = detect_fair_value_gaps cfg (get_price_data dh symbol (lookback_period cfg) ''1h'');
          order_blocks = detect_order_blocks cfg (get_price_data dh symbol (lookback_period cfg) ''1h'');
          ms = analyze_market_structure dh cfg clk symbol;
          valid_fvgs = filter (\<lambda>f. is_valid_signal (fvg_direction f) ms) fvgs;
          valid_obs = filter (\<lambda>b. is_valid_signal (ob_direction b) ms) order_blocks
      in map (\<lambda>(k, f). fvg_signal ms (clk (k + 1)) f) (zip [0 ..< length valid_fvgs] valid_fvgs)
         @ map (\<lambda>(k, b). ob_signal ms (clk (length valid_fvgs + k + 1)) b)
             (zip [0 ..< length valid_obs] valid_obs))"

definition generate_signals ::
  "data_handler \<Rightarrow> agent_config \<Rightarrow> clock \<Rightarrow> string \<Rightarrow> signal list" where
  "generate_signals dh cfg clk symbol = sorted_by_strength (unsorted_signals dh cfg clk symbol)"

section \<open>Backtester (backtester.py)\<close>

text \<open>
  The backtester's own parameters; its agent is built with the default configuration.
\<close>

record backtester =
  initial_capital :: real
  commission :: real
  slippage :: real

definition default_backtester :: backtester where
  "default_backtester = \<lparr>initial_capital = 10000, commission = 2.0, slippage = 0.001\<rparr>"

text \<open>The position, trade and equity dictionaries of \<^verbatim>\<open>run_backtest\<close>.\<close>

record bt_position =
  bp_entry_date :: int
  bp_entry_price :: real
  bp_direction :: string
  bp_quantity :: int
  bp_stop_loss :: real
  bp_take_profit :: real
  bp_pattern :: string

record trade =
  tr_entry_date :: int
  tr_exit_date :: int
  tr_entry_price :: real
  tr_exit_price :: real
  tr_direction :: string
  tr_quantity :: int
  tr_pnl :: real
  tr_exit_reason :: string

record equity_sample =
  es_date :: int
  es_equity :: real
  es_cash :: real
  es_positions_value :: real

text \<open>The tracking variables of the simulation loop.\<close>

record bt_state =
  capital :: real
  positions :: "bt_position list"
  trades :: "trade list"
  equity_curve :: "equity_sample list"

text \<open>
  \<^verbatim>\<open>_check_exit_signal(df, position, current_price)\<close>. It is handed the frame up to the
  current bar and does not read it.
\<close>

definition check_exit_signal :: "bar list \<Rightarrow> bt_position \<Rightarrow> real \<Rightarrow> string option" where
  "check_exit_signal df_upto position current_price =
     (if bp_direction position = ''LONG''
      then if current_price \<le> bp_stop_loss position then Some ''Stop Loss''
           else if current_price \<ge> bp_take_profit position then Some ''Take Profit''
           else None
      else if current_price \<ge> bp_stop_loss position then Some ''Stop Loss''
           else if current_price \<le> bp_take_profit position then Some ''Take Profit''
           else None)"

text \<open>
  \<^verbatim>\<open>_calculate_position_size\<close> of the backtester. Its prices are NumPy floats: a zero
  entry price makes the quotient infinite (or NaN when the numerator is zero as well) and
  the conversion to \<^verbatim>\<open>int\<close> raises.
\<close>

definition bt_calculate_position_size ::
  "real \<Rightarrow> real \<Rightarrow> real \<Rightarrow> real \<Rightarrow> py_error + int" where
  "bt_calculate_position_size cap entry_price stop_loss risk_per_trade' =
     (let risk_amount = cap * risk_per_trade';
          price_risk = \<bar>entry_price - stop_loss\<bar>
      in if price_risk \<le> 0 then Inr 0
         else
           let position_size = py_int (risk_amount / price_risk)
           in if entry_price = 0
              then (if cap * 0.3 = 0 then Inl ValueError else Inl OverflowError)
              else Inr (min position_size (py_int ((cap * 0.3) / entry_price))))"

text \<open>\<^verbatim>\<open>_calculate_pnl(position, exit_price)\<close>.\<close>

definition calculate_pnl :: "bt_position \<Rightarrow> real \<Rightarrow> real" where
  "calculate_pnl position exit_price =
     (if bp_direction position = ''LONG''
      then (exit_price - bp_entry_price position) * real_of_int (bp_quantity position)
      else (bp_entry_price position - exit_price) * real_of_int (bp_quantity position))"

text \<open>The execution price of an exit at the price \<open>p\<close>.\<close>

definition exit_price_of :: "backtester \<Rightarrow> bt_position \<Rightarrow> real \<Rightarrow> real" where
  "exit_price_of bt position p =
     p * (if bp_direction position = ''LONG'' then 1 - slippage bt else 1 + slippage bt)"

text \<open>
  Closing a position, as both the exit loop and the final loop do it: the cash is credited
  with the profit or loss less the commission, and the trade is appended.
\<close>

definition close_position ::
  "backtester \<Rightarrow> int \<Rightarrow> real \<Rightarrow> string \<Rightarrow> bt_position \<Rightarrow> bt_state \<Rightarrow> bt_state" where
  "close_position bt exit_date p exit_reason position st =
     (let exit_price = exit_price_of bt position p;
          pnl = calculate_pnl position exit_price
      in st\<lparr>capital := capital st + (pnl - commission bt),
            trades := trades st @
              [\<lparr>tr_entry_date = bp_entry_date position, tr_exit_date = exit_date,
                tr_entry_price = bp_entry_price position, tr_exit_price = exit_price,
                tr_direction = bp_direction position, tr_quantity = bp_quantity position,
                tr_pnl = pnl, tr_exit_reason = exit_reason\<rparr>]\<rparr>)"

text \<open>Step 1 of a bar: the equity sample.\<close>

definition record_equity :: "int \<Rightarrow> real \<Rightarrow> bt_state \<Rightarrow> bt_state" where
  "record_equity current_date current_price st =
     (let position_value =
            sum_list (map (\<lambda>pos. real_of_int (bp_quantity pos) * current_price) (positions st));
          total_equity = capital st + position_value
      in st\<lparr>equity_curve := equity_curve st @
              [\<lparr>es_date = current_date, es_equity = total_equity, es_cash = capital st,
                es_positions_value = position_value\<rparr>]\<rparr>)"

text \<open>
  Step 2 of a bar: the loop over a copy of the position list. A position whose exit fires
  is closed and removed from the list.
\<close>

definition exit_step ::
  "backtester \<Rightarrow> bar list \<Rightarrow> int \<Rightarrow> real \<Rightarrow> bt_state \<Rightarrow> bt_position \<Rightarrow> bt_state" where
  "exit_step bt df_upto current_date current_price st position =
     (case check_exit_signal df_upto position current_price of
        None \<Rightarrow> st
      | Some exit_signal \<Rightarrow>
          (close_position bt current_date current_price exit_signal position st)
            \<lparr>positions := remove1 position (positions st)\<rparr>)"

definition exit_positions ::
  "backtester \<Rightarrow> bar list \<Rightarrow> int \<Rightarrow> real \<Rightarrow> bt_state \<Rightarrow> bt_state" where
  "exit_positions bt df_upto current_date current_price st =
     foldl (exit_step bt df_upto current_date current_price) st (positions st)"

text \<open>
  Step 3 of a bar, on the signals it is given: only the first signal is looked at
  (\<^verbatim>\<open>signals[:1]\<close>); it is admitted when its strength is at least 0.6, its size is
  positive and its cost is covered by the cash. \<open>admission\<close> is the admitted signal with
  its size, \<open>enter\<close> the state after the position is opened.
\<close>

definition admission ::
  "backtester \<Rightarrow> real \<Rightarrow> signal list \<Rightarrow> py_error + (signal \<times> int) option" where
  "admission bt cap signals =
     (case take 1 signals of
        [] \<Rightarrow> Inr None
      | signal # _ \<Rightarrow>
          if sig_strength signal \<ge> 0.6
          then
            case bt_calculate_position_size cap (sig_price signal) (sig_stop_loss signal) 0.02 of
              Inl e \<Rightarrow> Inl e
            | Inr position_size \<Rightarrow>
                if position_size > 0
                then
                  let entry_price = sig_price signal * (1 + slippage bt);
                      cost = real_of_int position_size * entry_price + commission bt
                  in if cost \<le> cap then Inr (Some (signal, position_size)) else Inr None
                else Inr None
          else Inr None)"

definition enter :: "backtester \<Rightarrow> int \<Rightarrow> signal list \<Rightarrow> bt_state \<Rightarrow> py_error + bt_state" where
  "enter bt current_date signals st =
     (case admission bt (capital st) signals of
        Inl e \<Rightarrow> Inl e
      | Inr None \<Rightarrow> Inr st
      | Inr (Some (signal, position_size)) \<Rightarrow>
          let entry_price = sig_price signal * (1 + slippage bt);
              cost = real_of_int position_size * entry_price + commission bt
          in Inr (st\<lparr>capital := capital st - cost,
                     positions := positions st @
                       [\<lparr>bp_entry_date = current_date, bp_entry_price = entry_price,
                         bp_direction = sig_direction signal, bp_quantity = position_size,
                         bp_stop_loss = sig_stop_loss signal,
                         bp_take_profit = sig_take_profit signal,
                         bp_pattern = sig_pattern signal\<rparr>]\<rparr>))"

text \<open>
  One pass of the loop body for the bar index \<open>i\<close>. The exit check is handed
  \<^verbatim>\<open>df.iloc[:i+1]\<close>; the signals are generated by the agent from the symbol alone, that
  is from whatever the data handler answers to the agent's own requests. \<open>clk\<close> holds the
  clock readings of this bar's signal generation.
\<close>

definition bar_state_before_entry ::
  "backtester \<Rightarrow> data_frame \<Rightarrow> nat \<Rightarrow> bt_state \<Rightarrow> bt_state" where
  "bar_state_before_entry bt df i st =
     (let current_date = timestamp (iloc df i);
          current_price = Close (iloc df i)
      in exit_positions bt (take (i + 1) (rows df)) current_date current_price
           (record_equity current_date current_price st))"

definition bar_step ::
  "backtester \<Rightarrow> data_handler \<Rightarrow> clock \<Rightarrow> string \<Rightarrow> data_frame \<Rightarrow> nat \<Rightarrow> bt_state
     \<Rightarrow> py_error + bt_state" where
  "bar_step bt dh clk symbol df i st =
     (let st = bar_state_before_entry bt df i st
      in if length (positions st) < 3
         then enter bt (timestamp (iloc df i)) (generate_signals dh default_config clk symbol) st
         else Inr st)"

text \<open>The loop \<^verbatim>\<open>for i in range(100, len(df))\<close>, stopped by an exception.\<close>

fun run_bars ::
  "backtester \<Rightarrow> data_handler \<Rightarrow> (nat \<Rightarrow> clock) \<Rightarrow> string \<Rightarrow> data_frame \<Rightarrow> nat list \<Rightarrow> bt_state
     \<Rightarrow> py_error + bt_state" where
  "run_bars bt dh clocks symbol df [] st = Inr st"
| "run_bars bt dh clocks symbol df (i # is) st =
     (case bar_step bt dh (clocks i) symbol df i st of
        Inl e \<Rightarrow> Inl e
      | Inr st' \<Rightarrow> run_bars bt dh clocks symbol df is st')"

text \<open>The final loop: every remaining position is closed at the last close.\<close>

definition close_remaining :: "backtester \<Rightarrow> data_frame \<Rightarrow> bt_state \<Rightarrow> bt_state" where
  "close_remaining bt df st =
     (let final_price = Close (last (rows df))
      in foldl (\<lambda>st position.
                  close_position bt (timestamp (last (rows df))) final_price ''End of backtest''
                    position st)
           st (positions st))"

text \<open>
  The result of \<^verbatim>\<open>run_backtest\<close>: the error dictionary when no data is available, or the
  report. The metrics merged into the report are a function of the trades, the equity
  curve and the initial capital, and are left out.
\<close>

record report =
  rp_symbol :: string
  rp_start_date :: string
  rp_end_date :: string
  rp_initial_capital :: real
  rp_final_capital :: real
  rp_trades :: "trade list"
  rp_equity_curve :: "equity_sample list"

datatype backtest_result = NoData string | Report report

definition initial_state :: "backtester \<Rightarrow> bt_state" where
  "initial_state bt =
     \<lparr>capital = initial_capital bt, positions = [], trades = [], equity_curve = []\<rparr>"

definition run_backtest ::
  "backtester \<Rightarrow> data_handler \<Rightarrow> (nat \<Rightarrow> clock) \<Rightarrow> string \<Rightarrow> string \<Rightarrow> string \<Rightarrow> string
     \<Rightarrow> py_error + backtest_result" where
  "run_backtest bt dh clocks symbol start_date end_date interval =
     (let df = get_historical_data dh symbol start_date end_date interval
      in if rows df = [] then Inr (NoData ''No data available'')
         else
           case run_bars bt dh clocks symbol df [100 ..< len df] (initial_state bt) of
             Inl e \<Rightarrow> Inl e
           | Inr st \<Rightarrow>
               let st = close_remaining bt df st
               in Inr (Report
                    \<lparr>rp_symbol = symbol, rp_start_date = start_date, rp_end_date = end_date,
                     rp_initial_capital = initial_capital bt, rp_final_capital = capital st,
                     rp_trades = trades st, rp_equity_curve = equity_curve st\<rparr>))"

text \<open>
  What step 3 admits at the bar index \<open>i\<close> of a run: the loop is run over the bars before
  \<open>i\<close>, then steps 1 and 2 of bar \<open>i\<close>, then the admission.
\<close>

definition admitted_at ::
  "backtester \<Rightarrow> data_handler \<Rightarrow> (nat \<Rightarrow> clock) \<Rightarrow> string \<Rightarrow> data_frame \<Rightarrow> nat
     \<Rightarrow> py_error + (signal \<times> int) option" where
  "admitted_at bt dh clocks symbol df i =
     (case run_bars bt dh clocks symbol df [100 ..< i] (initial_state bt) of
        Inl e \<Rightarrow> Inl e
      | Inr st \<Rightarrow>
          let st = bar_state_before_entry bt df i st
          in if length (positions st) < 3
             then admission bt (capital st) (generate_signals dh default_config (clocks i) symbol)
             else Inr None)"

text \<open>
  The trade dictionary that closing a position at the price \<open>p\<close> appends to the trade log.
\<close>

definition trade_of :: "backtester \<Rightarrow> int \<Rightarrow> real \<Rightarrow> string \<Rightarrow> bt_position \<Rightarrow> trade" where
  "trade_of bt exit_date p exit_reason position =
     \<lparr>tr_entry_date = bp_entry_date position, tr_exit_date = exit_date,
      tr_entry_price = bp_entry_price position, tr_exit_price = exit_price_of bt position p,
      tr_direction = bp_direction position, tr_quantity = bp_quantity position,
      tr_pnl = calculate_pnl position (exit_price_of bt position p),
      tr_exit_reason = exit_reason\<rparr>"

text \<open>
  The cash ledger of a state: the cash is the initial capital, plus for every logged trade
  its profit or loss less two commissions less its entry principal, less for every open
  position its entry principal and one commission.
\<close>

definition balanced :: "backtester \<Rightarrow> bt_state \<Rightarrow> bool" where
  "balanced bt st \<longleftrightarrow>
     capital st =
       initial_capital bt
       + (\<Sum>t\<leftarrow>trades st. tr_pnl t - 2 * commission bt - real_of_int (tr_quantity t) * tr_entry_price t)
       - (\<Sum>p\<leftarrow>positions st. real_of_int (bp_quantity p) * bp_entry_price p + commission bt)"

text \<open>
  A logged trade whose profit or loss is the one its prices give and whose exit reason is
  one of the three the backtester writes.
\<close>

definition settled :: "trade \<Rightarrow> bool" where
  "settled t \<longleftrightarrow>
     tr_pnl t =
       (if tr_direction t = ''LONG''
        then (tr_exit_price t - tr_entry_price t) * real_of_int (tr_quantity t)
        else (tr_entry_price t - tr_exit_price t) * real_of_int (tr_quantity t)) \<and>
     tr_exit_reason t \<in> {''Stop Loss'', ''Take Profit'', ''End of backtest''}"

section \<open>Sample inputs\<close>

text \<open>The positions, signals and manager used by the repository's own risk-manager tests.\<close>

definition sample_position :: "int \<Rightarrow> position" where
  "sample_position q =
     \<lparr>pos_symbol = ''SYM1'', pos_direction = ''LONG'', pos_entry_price = 100,
      pos_quantity = q, pos_stop_loss = 95, pos_take_profit = 110,
      pos_entry_date = ''2023-01-01''\<rparr>"

definition sample_signal :: "real \<Rightarrow> signal_dict" where
  "sample_signal tp = [''price'' \<mapsto> 100, ''stop_loss'' \<mapsto> 95, ''take_profit'' \<mapsto> tp]"

definition sample_manager :: "position list \<Rightarrow> risk_manager" where
  "sample_manager ps = \<lparr>rm_config = default_risk_config, rm_positions = ps\<rparr>"

text \<open>Bars and frames used as concrete inputs.\<close>

definition mk_bar :: "int \<Rightarrow> real \<Rightarrow> real \<Rightarrow> real \<Rightarrow> real \<Rightarrow> real \<Rightarrow> bar" where
  "mk_bar t o' h l c v = \<lparr>timestamp = t, Open = o', High = h, Low = l, Close = c, Volume = v\<rparr>"

text \<open>
  The gap scenario of the specification: previous low 110, a bullish middle candle, next
  high 100.
\<close>

definition gap_frame :: data_frame where
  "gap_frame = \<lparr>has_volume = True, rows =
     [mk_bar 0 112 115 110 113 1000, mk_bar 1 104 109 103 108 1000, mk_bar 2 98 100 95 97 1000]\<rparr>"

text \<open>\<open>n\<close> identical bars at the price 100.\<close>

definition flat_rows :: "nat \<Rightarrow> bar list" where
  "flat_rows n = map (\<lambda>t. mk_bar (int t) 100 100 100 100 1000) [0 ..< n]"

definition flat_frame :: "nat \<Rightarrow> data_frame" where
  "flat_frame n = \<lparr>has_volume = True, rows = flat_rows n\<rparr>"

text \<open>
  29 bars with two rising swing highs (120, 130), two rising swing lows (101, 110) and a
  bullish gap at their index 8 (previous low 115, next high 107), starting at time \<open>t\<close>.
\<close>

definition swing_rows :: "int \<Rightarrow> bar list" where
  "swing_rows t =
     [mk_bar (t + 0) 100 101 100 101 1000, mk_bar (t + 1) 101 102 101 102 1000,
      mk_bar (t + 2) 102 103 102 103 1000, mk_bar (t + 3) 103 104 103 104 1000,
      mk_bar (t + 4) 104 105 104 105 1000, mk_bar (t + 5) 105 120 105 118 1000,
      mk_bar (t + 6) 118 119 116 117 1000, mk_bar (t + 7) 117 118 115 116 1000,
      mk_bar (t + 8) 104 112 104 111 2000, mk_bar (t + 9) 106 107 103 104 1000,
      mk_bar (t + 10) 104 106 102 103 1000, mk_bar (t + 11) 103 105 101 102 1000,
      mk_bar (t + 12) 102 108 102 107 1000, mk_bar (t + 13) 107 112 106 111 1000,
      mk_bar (t + 14) 111 116 110 115 1000, mk_bar (t + 15) 115 121 114 120 1000,
      mk_bar (t + 16) 120 125 119 124 1000, mk_bar (t + 17) 124 130 123 128 1000,
      mk_bar (t + 18) 128 129 125 126 1000, mk_bar (t + 19) 126 127 122 123 1000,
      mk_bar (t + 20) 123 124 119 120 1000, mk_bar (t + 21) 120 121 116 117 1000,
      mk_bar (t + 22) 117 118 113 114 1000, mk_bar (t + 23) 114 115 110 111 1000,
      mk_bar (t + 24) 111 116 111 115 1000, mk_bar (t + 25) 115 119 114 118 1000,
      mk_bar (t + 26) 118 122 117 121 1000, mk_bar (t + 27) 121 125 120 124 1000,
      mk_bar (t + 28) 124 128 123 127 1000]"

definition swing_frame :: data_frame where
  "swing_frame = \<lparr>has_volume = True, rows = swing_rows 0\<rparr>"

text \<open>A data handler that answers every trailing-period request with one frame and every
  date-range request with another.\<close>

definition fixed_handler :: "data_frame \<Rightarrow> data_frame \<Rightarrow> data_handler" where
  "fixed_handler recent historical =
     \<lparr>get_price_data = (\<lambda>symbol period interval. recent),
      get_historical_data = (\<lambda>symbol start_date end_date interval. historical)\<rparr>"

definition no_clock :: clock where
  "no_clock k = []"

definition uptrend :: market_structure where
  "uptrend = Structure ''NQ=F'' ''UPTREND'' \<lparr>swing_highs = [], swing_lows = []\<rparr> []"

text \<open>A signal with its clock reading blanked.\<close>

definition erase_timestamp :: "signal \<Rightarrow> signal" where
  "erase_timestamp s = s\<lparr>sig_timestamp := []\<rparr>"

text \<open>
  The position the default backtester opens for a gap signal at the price 107 with the
  cash 10000 (25 units at 107.107), and the state after the opening.
\<close>

definition gap_position :: bt_position where
  "gap_position =
     \<lparr>bp_entry_date = 100, bp_entry_price = 107.107, bp_direction = ''BULLISH'',
      bp_quantity = 25, bp_stop_loss = 114.885, bp_take_profit = 132,
      bp_pattern = ''Fair Value Gap''\<rparr>"

definition gap_state :: bt_state where
  "gap_state = \<lparr>capital = 7320.325, positions = [gap_position], trades = [], equity_curve = []\<rparr>"

text \<open>
  A market series of 130 bars that is flat up to the bar index 100 and then swings, and a
  data handler serving a market series: the date-range request is answered with the whole
  series, the trailing-period request with its last \<open>n\<close> bars.
\<close>

definition gapped_market :: data_frame where
  "gapped_market = \<lparr>has_volume = True, rows = flat_rows 101 @ swing_rows 101\<rparr>"

definition trailing_handler :: "nat \<Rightarrow> data_frame \<Rightarrow> data_handler" where
  "trailing_handler n market =
     \<lparr>get_price_data =
        (\<lambda>symbol period interval. market\<lparr>rows := drop (length (rows market) - n) (rows market)\<rparr>),
      get_historical_data = (\<lambda>symbol start_date end_date interval. market)\<rparr>"

text \<open>
  A run of the default backtester over 102 flat bars, with a data handler whose trailing
  answer is the swinging frame: the position opened at the bar index 100, the state after
  that bar, and the report of the run.
\<close>

definition swing_handler :: data_handler where
  "swing_handler = fixed_handler swing_frame (flat_frame 102)"

definition first_position :: bt_position where
  "first_position =
     \<lparr>bp_entry_date = 100, bp_entry_price = 101.101, bp_direction = ''BULLISH'',
      bp_quantity = 26, bp_stop_loss = 93.5, bp_take_profit = 146,
      bp_pattern = ''Order Block''\<rparr>"

definition first_state :: bt_state where
  "first_state =
     \<lparr>capital = 7369.374, positions = [first_position], trades = [],
      equity_curve =
        [\<lparr>es_date = 100, es_equity = 10000, es_cash = 10000, es_positions_value = 0\<rparr>]\<rparr>"

definition swing_report :: report where
  "swing_report =
     \<lparr>rp_symbol = ''NQ=F'', rp_start_date = ''2023-01-01'', rp_end_date = ''2023-12-31'',
      rp_initial_capital = 10000, rp_final_capital = 5487.5,
      rp_trades =
        [\<lparr>tr_entry_date = 100, tr_exit_date = 101, tr_entry_price = 101.101,
          tr_exit_price = 100.1, tr_direction = ''BULLISH'', tr_quantity = 26,
          tr_pnl = 26.026, tr_exit_reason = ''Stop Loss''\<rparr>,
         \<lparr>tr_entry_date = 101, tr_exit_date = 101, tr_entry_price = 101.101,
          tr_exit_price = 100.1, tr_direction = ''BULLISH'', tr_quantity = 19,
          tr_pnl = 19.019, tr_exit_reason = ''End of backtest''\<rparr>],
      rp_equity_curve =
        [\<lparr>es_date = 100, es_equity = 10000, es_cash = 10000, es_positions_value = 0\<rparr>,
         \<lparr>es_date = 101, es_equity = 9969.374, es_cash = 7369.374,
          es_positions_value = 2600\<rparr>]\<rparr>"

section \<open>Properties of the risk manager\<close>

lemmas sample_defs = sample_manager_def sample_signal_def sample_position_def
  effective_positions_def dict_get_def default_risk_config_def

lemmas size_defs = calculate_position_size_def risk_pct_def py_int_def

subsection \<open>Position sizing\<close>

lemma py_int_mono: "x \<le> y \<Longrightarrow> py_int x \<le> py_int y"
proof -
  assume xy: "x \<le> y"
  show ?thesis
  proof (cases "0 \<le> x")
    case True
    then have "0 \<le> y" using xy by simp
    then show ?thesis using True xy by (simp add: py_int_def floor_mono)
  next
    case False
    show ?thesis
    proof (cases "0 \<le> y")
      case True
      have "\<lceil>x\<rceil> \<le> 0" using False by (simp add: ceiling_le_iff)
      moreover have "0 \<le> \<lfloor>y\<rfloor>" using True by simp
      ultimately have "\<lceil>x\<rceil> \<le> \<lfloor>y\<rfloor>" by (rule order_trans)
      then show ?thesis using False True by (simp add: py_int_def)
    next
      case y: False
      then show ?thesis using False xy by (simp add: py_int_def ceiling_mono)
    qed
  qed
qed

lemma py_int_of_int: "py_int (real_of_int n) = n"
  by (simp add: py_int_def)

lemma afford_min:
  assumes "0 < e"
  shows "(if real_of_int s * e > c then py_int (c / e) else s) = min s (py_int (c / e))"
proof (cases "real_of_int s * e > c")
  case True
  then have "c / e < real_of_int s" using assms by (simp add: pos_divide_less_eq)
  then have "py_int (c / e) \<le> py_int (real_of_int s)" by (intro py_int_mono) simp
  then show ?thesis using True by (simp add: py_int_of_int)
next
  case False
  then have "real_of_int s \<le> c / e" using assms by (simp add: pos_le_divide_eq)
  then have "py_int (real_of_int s) \<le> py_int (c / e)" by (rule py_int_mono)
  then show ?thesis using False by (simp add: py_int_of_int)
qed

lemma size_closed:
  assumes "0 < e" "e \<noteq> s"
  shows "calculate_position_size cfg c e s rpt =
     Inr (min (min (py_int (c * risk_pct cfg rpt / \<bar>e - s\<bar>)) (py_int (c * max_position_size cfg / e)))
              (py_int (c / e)))"
proof -
  let ?s = "min (py_int (c * risk_pct cfg rpt / \<bar>e - s\<bar>)) (py_int (c * max_position_size cfg / e))"
  have "(if real_of_int ?s * e > c then py_int (c / e) else ?s) = min ?s (py_int (c / e))"
    by (rule afford_min[OF assms(1)])
  then show ?thesis using assms
    by (simp add: calculate_position_size_def Let_def split: if_splits)
qed


lemma size_mono_capital:
  assumes e: "0 < e" and r: "0 \<le> risk_pct cfg rpt" and m: "0 \<le> max_position_size cfg"
    and c: "c1 \<le> c2"
  shows "\<exists>n1 n2. calculate_position_size cfg c1 e s rpt = Inr n1 \<and>
                 calculate_position_size cfg c2 e s rpt = Inr n2 \<and> n1 \<le> n2"
proof (cases "e = s")
  case True
  then show ?thesis by (simp add: calculate_position_size_def)
next
  case False
  have pr: "0 < \<bar>e - s\<bar>" using False by simp
  have a: "py_int (c1 * risk_pct cfg rpt / \<bar>e - s\<bar>) \<le> py_int (c2 * risk_pct cfg rpt / \<bar>e - s\<bar>)"
    using c r pr by (intro py_int_mono divide_right_mono mult_right_mono) simp_all
  have b: "py_int (c1 * max_position_size cfg / e) \<le> py_int (c2 * max_position_size cfg / e)"
    using c m e by (intro py_int_mono divide_right_mono mult_right_mono) simp_all
  have d: "py_int (c1 / e) \<le> py_int (c2 / e)"
    using c e by (intro py_int_mono divide_right_mono) simp_all
  have "min (min (py_int (c1 * risk_pct cfg rpt / \<bar>e - s\<bar>)) (py_int (c1 * max_position_size cfg / e))) (py_int (c1 / e))
     \<le> min (min (py_int (c2 * risk_pct cfg rpt / \<bar>e - s\<bar>)) (py_int (c2 * max_position_size cfg / e))) (py_int (c2 / e))"
    using a b d by linarith
  then show ?thesis
    by (simp add: size_closed[OF e False])
qed

lemma size_antimono_risk:
  assumes e: "0 < e" and r: "0 \<le> risk_pct cfg rpt" and c: "0 \<le> c"
    and p1: "0 < \<bar>e - s1\<bar>" and p12: "\<bar>e - s1\<bar> \<le> \<bar>e - s2\<bar>"
  shows "\<exists>n1 n2. calculate_position_size cfg c e s1 rpt = Inr n1 \<and>
                 calculate_position_size cfg c e s2 rpt = Inr n2 \<and> n2 \<le> n1"
proof -
  have ne1: "e \<noteq> s1" using p1 by auto
  have ne2: "e \<noteq> s2" using p1 p12 by auto
  have "0 \<le> c * risk_pct cfg rpt" using c r by simp
  then have a: "py_int (c * risk_pct cfg rpt / \<bar>e - s2\<bar>) \<le> py_int (c * risk_pct cfg rpt / \<bar>e - s1\<bar>)"
    using p1 p12 by (intro py_int_mono divide_left_mono) simp_all
  then have "min (min (py_int (c * risk_pct cfg rpt / \<bar>e - s2\<bar>)) (py_int (c * max_position_size cfg / e))) (py_int (c / e))
     \<le> min (min (py_int (c * risk_pct cfg rpt / \<bar>e - s1\<bar>)) (py_int (c * max_position_size cfg / e))) (py_int (c / e))"
    by linarith
  then show ?thesis
    by (simp add: size_closed[OF e ne1] size_closed[OF e ne2])
qed

text \<open>
  C7, as stated, fails: with cap 10000 and entry price 100, the stop 100 (price risk 0)
  gives size 0 while the stop 95 (price risk 5) gives size 30, so the size is not
  non-increasing in the price risk once the price risk 0 is included.
\<close>

theorem position_size_price_risk_counterexample:
  "\<bar>(100::real) - 100\<bar> \<le> \<bar>100 - 95\<bar> \<and>
   calculate_position_size default_risk_config 10000 100 100 None = Inr 0 \<and>
   calculate_position_size default_risk_config 10000 100 95 None = Inr 30"
  by (simp add: calculate_position_size_def default_risk_config_def risk_pct_def py_int_def)

text \<open>
  C7 (amended): for a positive entry price and non-negative risk and position-size
  fractions, \<^verbatim>\<open>calculate_position_size\<close> is non-decreasing in the cap; for a
  non-negative cap it is non-increasing in the price risk \<open>\<bar>entry - stop\<bar>\<close> over
  strictly positive price risks; and it returns 0 whenever the entry price equals the
  stop price, for every cap and every price.
\<close>

theorem position_size_monotone:
  assumes "0 < e" and "0 \<le> risk_pct cfg rpt" and "0 \<le> max_position_size cfg"
  shows
    "(c1 \<le> c2 \<longrightarrow>
        (\<exists>n1 n2. calculate_position_size cfg c1 e s rpt = Inr n1 \<and>
                  calculate_position_size cfg c2 e s rpt = Inr n2 \<and> n1 \<le> n2)) \<and>
     (0 \<le> c \<and> 0 < \<bar>e - s1\<bar> \<and> \<bar>e - s1\<bar> \<le> \<bar>e - s2\<bar> \<longrightarrow>
        (\<exists>n1 n2. calculate_position_size cfg c e s1 rpt = Inr n1 \<and>
                  calculate_position_size cfg c e s2 rpt = Inr n2 \<and> n2 \<le> n1)) \<and>
     calculate_position_size cfg c' x x rpt' = Inr 0"
proof (intro conjI impI)
  assume "c1 \<le> c2"
  with assms show "\<exists>n1 n2. calculate_position_size cfg c1 e s rpt = Inr n1 \<and>
      calculate_position_size cfg c2 e s rpt = Inr n2 \<and> n1 \<le> n2"
    by (rule size_mono_capital)
next
  assume "0 \<le> c \<and> 0 < \<bar>e - s1\<bar> \<and> \<bar>e - s1\<bar> \<le> \<bar>e - s2\<bar>"
  then show "\<exists>n1 n2. calculate_position_size cfg c e s1 rpt = Inr n1 \<and>
      calculate_position_size cfg c e s2 rpt = Inr n2 \<and> n2 \<le> n1"
    using assms(1,2) by (intro size_antimono_risk) simp_all
next
  show "calculate_position_size cfg c' x x rpt' = Inr 0"
    by (simp add: calculate_position_size_def)
qed

theorem position_size_monotone_witness:
  "(0::real) < 100 \<and> 0 \<le> risk_pct default_risk_config None \<and>
   0 \<le> max_position_size default_risk_config \<and>
   (10000::real) \<le> 20000 \<and>
   calculate_position_size default_risk_config 10000 100 95 None = Inr 30 \<and>
   calculate_position_size default_risk_config 20000 100 95 None = Inr 60 \<and>
   (0::real) < \<bar>100 - 95\<bar> \<and> \<bar>(100::real) - 95\<bar> \<le> \<bar>100 - 90\<bar> \<and>
   calculate_position_size default_risk_config 10000 100 90 None = Inr 20 \<and>
   calculate_position_size default_risk_config 10000 100 100 None = Inr 0"
  using position_size_monotone [of 100 default_risk_config None 10000 20000 95 10000 95 90 10000 100 None]
  by (simp add: size_defs default_risk_config_def)

subsection \<open>Trade validation\<close>

text \<open>
  C8: \<^verbatim>\<open>validate_trade\<close> runs its checks in the order max-positions, position size,
  portfolio risk, risk/reward, and returns the reason of the first check that fails, a
  later check being reached only when every earlier one has passed; with three positions
  passed in and \<open>max_positions = 3\<close> it rejects with the positions reason, whatever the
  signal and the cap.
\<close>

theorem validate_trade_check_order:
  assumes "cfg = rm_config rm"
    and "ps = effective_positions rm cur"
    and "e = dict_get signal ''price'' 0"
    and "s = dict_get signal ''stop_loss'' 0"
    and "t = dict_get signal ''take_profit'' 0"
  shows
    "(max_positions cfg \<le> int (length ps) \<longrightarrow>
        validate_trade rm signal cap cur = Inr (False, MaxPositionsReached)) \<and>
     (int (length ps) < max_positions cfg \<longrightarrow>
        (\<forall>n. calculate_position_size cfg cap e s None = Inr n \<longrightarrow>
           (n \<le> 0 \<longrightarrow>
              validate_trade rm signal cap cur = Inr (False, InsufficientCapital)) \<and>
           (0 < n \<and> max_portfolio_risk cfg < calculate_portfolio_risk ps cap + risk_per_trade cfg \<longrightarrow>
              validate_trade rm signal cap cur = Inr (False, ExceedsPortfolioRisk)) \<and>
           (0 < n \<and> calculate_portfolio_risk ps cap + risk_per_trade cfg \<le> max_portfolio_risk cfg \<and>
            0 < \<bar>e - s\<bar> \<and> \<bar>t - e\<bar> / \<bar>e - s\<bar> < take_profit_ratio cfg \<longrightarrow>
              validate_trade rm signal cap cur =
                Inr (False, RiskRewardBelow (\<bar>t - e\<bar> / \<bar>e - s\<bar>) (take_profit_ratio cfg))) \<and>
           (0 < n \<and> calculate_portfolio_risk ps cap + risk_per_trade cfg \<le> max_portfolio_risk cfg \<and>
            \<not> (0 < \<bar>e - s\<bar> \<and> \<bar>t - e\<bar> / \<bar>e - s\<bar> < take_profit_ratio cfg) \<longrightarrow>
              validate_trade rm signal cap cur = Inr (True, TradeValidated)))) \<and>
     (\<forall>three. length three = 3 \<and> max_positions cfg = 3 \<longrightarrow>
        validate_trade rm signal cap (Some three) = Inr (False, MaxPositionsReached))"
proof -
  have first: "max_positions cfg \<le> int (length ps) \<longrightarrow>
        validate_trade rm signal cap cur = Inr (False, MaxPositionsReached)"
    unfolding assms by (simp add: validate_trade_def Let_def)
  have later: "int (length ps) < max_positions cfg \<longrightarrow>
        (\<forall>n. calculate_position_size cfg cap e s None = Inr n \<longrightarrow>
           (n \<le> 0 \<longrightarrow>
              validate_trade rm signal cap cur = Inr (False, InsufficientCapital)) \<and>
           (0 < n \<and> max_portfolio_risk cfg < calculate_portfolio_risk ps cap + risk_per_trade cfg \<longrightarrow>
              validate_trade rm signal cap cur = Inr (False, ExceedsPortfolioRisk)) \<and>
           (0 < n \<and> calculate_portfolio_risk ps cap + risk_per_trade cfg \<le> max_portfolio_risk cfg \<and>
            0 < \<bar>e - s\<bar> \<and> \<bar>t - e\<bar> / \<bar>e - s\<bar> < take_profit_ratio cfg \<longrightarrow>
              validate_trade rm signal cap cur =
                Inr (False, RiskRewardBelow (\<bar>t - e\<bar> / \<bar>e - s\<bar>) (take_profit_ratio cfg))) \<and>
           (0 < n \<and> calculate_portfolio_risk ps cap + risk_per_trade cfg \<le> max_portfolio_risk cfg \<and>
            \<not> (0 < \<bar>e - s\<bar> \<and> \<bar>t - e\<bar> / \<bar>e - s\<bar> < take_profit_ratio cfg) \<longrightarrow>
              validate_trade rm signal cap cur = Inr (True, TradeValidated)))"
    unfolding assms by (simp add: validate_trade_def Let_def)
  have three: "\<forall>three. length three = 3 \<and> max_positions cfg = 3 \<longrightarrow>
        validate_trade rm signal cap (Some three) = Inr (False, MaxPositionsReached)"
    unfolding assms by (auto simp: validate_trade_def effective_positions_def Let_def)
  from first later three show ?thesis by (intro conjI)
qed

theorem validate_trade_check_order_witness:
  "validate_trade (sample_manager []) (sample_signal 110) 10000
       (Some [sample_position 10, sample_position 10, sample_position 10])
     = Inr (False, MaxPositionsReached) \<and>
   validate_trade (sample_manager []) (sample_signal 110) 100 (Some [])
     = Inr (False, InsufficientCapital) \<and>
   validate_trade (sample_manager []) (sample_signal 110) 10000 (Some [sample_position 100])
     = Inr (False, ExceedsPortfolioRisk) \<and>
   validate_trade (sample_manager []) (sample_signal 102) 10000 (Some [])
     = Inr (False, RiskRewardBelow (2 / 5) 2) \<and>
   validate_trade (sample_manager []) (sample_signal 110) 10000 (Some [])
     = Inr (True, TradeValidated)"
proof -
  let ?rm = "sample_manager []"
  let ?three = "[sample_position 10, sample_position 10, sample_position 10]"
  note order = validate_trade_check_order [OF refl refl refl refl refl]
  have "length ?three = 3 \<and> max_positions (rm_config ?rm) = 3"
    by (simp add: sample_defs)
  with order [of ?rm "Some []" "sample_signal 110" 10000]
  have w1: "validate_trade ?rm (sample_signal 110) 10000 (Some ?three)
      = Inr (False, MaxPositionsReached)"
    by blast
  have free: "int (length (effective_positions ?rm (Some []))) < max_positions (rm_config ?rm)"
    by (simp add: sample_defs)
  have size100: "calculate_position_size (rm_config ?rm) 100
       (dict_get (sample_signal 110) ''price'' 0) (dict_get (sample_signal 110) ''stop_loss'' 0) None
     = Inr 0"
    by (simp add: sample_defs size_defs)
  from order [of ?rm "Some []" "sample_signal 110" 100] free size100
  have w2: "validate_trade ?rm (sample_signal 110) 100 (Some []) = Inr (False, InsufficientCapital)"
    by blast
  have size110: "calculate_position_size (rm_config ?rm) 10000
       (dict_get (sample_signal 110) ''price'' 0) (dict_get (sample_signal 110) ''stop_loss'' 0) None
     = Inr 30"
    by (simp add: sample_defs size_defs)
  have size102: "calculate_position_size (rm_config ?rm) 10000
       (dict_get (sample_signal 102) ''price'' 0) (dict_get (sample_signal 102) ''stop_loss'' 0) None
     = Inr 30"
    by (simp add: sample_defs size_defs)
  have free1: "int (length (effective_positions ?rm (Some [sample_position 100])))
      < max_positions (rm_config ?rm)"
    by (simp add: sample_defs)
  have risky: "max_portfolio_risk (rm_config ?rm)
      < calculate_portfolio_risk (effective_positions ?rm (Some [sample_position 100])) 10000
        + risk_per_trade (rm_config ?rm)"
    by (simp add: sample_defs calculate_portfolio_risk_def position_risk_pct_def)
  from order [of ?rm "Some [sample_position 100]" "sample_signal 110" 10000] free1 size110 risky
  have w3: "validate_trade ?rm (sample_signal 110) 10000 (Some [sample_position 100])
      = Inr (False, ExceedsPortfolioRisk)"
    by (metis zero_less_numeral)
  have calm: "calculate_portfolio_risk (effective_positions ?rm (Some [])) 10000
        + risk_per_trade (rm_config ?rm) \<le> max_portfolio_risk (rm_config ?rm)"
    by (simp add: sample_defs calculate_portfolio_risk_def)
  have poor: "0 < \<bar>dict_get (sample_signal 102) ''price'' 0 - dict_get (sample_signal 102) ''stop_loss'' 0\<bar> \<and>
      \<bar>dict_get (sample_signal 102) ''take_profit'' 0 - dict_get (sample_signal 102) ''price'' 0\<bar>
        / \<bar>dict_get (sample_signal 102) ''price'' 0 - dict_get (sample_signal 102) ''stop_loss'' 0\<bar>
      < take_profit_ratio (rm_config ?rm)"
    by (simp add: sample_defs)
  from order [of ?rm "Some []" "sample_signal 102" 10000] free size102 calm poor
  have "validate_trade ?rm (sample_signal 102) 10000 (Some [])
      = Inr (False, RiskRewardBelow
          (\<bar>dict_get (sample_signal 102) ''take_profit'' 0 - dict_get (sample_signal 102) ''price'' 0\<bar>
            / \<bar>dict_get (sample_signal 102) ''price'' 0 - dict_get (sample_signal 102) ''stop_loss'' 0\<bar>)
          (take_profit_ratio (rm_config ?rm)))"
    by (metis zero_less_numeral)
  then have w4: "validate_trade ?rm (sample_signal 102) 10000 (Some [])
      = Inr (False, RiskRewardBelow (2 / 5) 2)"
    by (simp add: sample_defs)
  have good: "\<not> (0 < \<bar>dict_get (sample_signal 110) ''price'' 0 - dict_get (sample_signal 110) ''stop_loss'' 0\<bar> \<and>
      \<bar>dict_get (sample_signal 110) ''take_profit'' 0 - dict_get (sample_signal 110) ''price'' 0\<bar>
        / \<bar>dict_get (sample_signal 110) ''price'' 0 - dict_get (sample_signal 110) ''stop_loss'' 0\<bar>
      < take_profit_ratio (rm_config ?rm))"
    by (simp add: sample_defs)
  from order [of ?rm "Some []" "sample_signal 110" 10000] free size110 calm good
  have w5: "validate_trade ?rm (sample_signal 110) 10000 (Some []) = Inr (True, TradeValidated)"
    by (metis zero_less_numeral)
  from w1 w2 w3 w4 w5 show ?thesis by (intro conjI)
qed

text \<open>
  C9: an explicitly empty \<^verbatim>\<open>current_positions\<close> is falsy, so \<^verbatim>\<open>validate_trade\<close>
  falls back to the manager's own registry, exactly as when the argument is omitted; when
  the registry holds \<open>max_positions\<close> positions or more, the call with the empty list is
  rejected with the positions reason.
\<close>

theorem validate_trade_empty_list_uses_registry:
  "validate_trade rm signal cap (Some []) = validate_trade rm signal cap None \<and>
   (max_positions (rm_config rm) \<le> int (length (rm_positions rm)) \<longrightarrow>
      validate_trade rm signal cap (Some []) = Inr (False, MaxPositionsReached))"
  by (simp add: validate_trade_def effective_positions_def Let_def)

theorem validate_trade_empty_list_uses_registry_witness:
  "max_positions (rm_config (sample_manager [sample_position 10, sample_position 10, sample_position 10]))
     \<le> int (length (rm_positions (sample_manager [sample_position 10, sample_position 10, sample_position 10]))) \<and>
   validate_trade (sample_manager [sample_position 10, sample_position 10, sample_position 10])
     (sample_signal 110) 10000 (Some []) = Inr (False, MaxPositionsReached)"
proof -
  let ?rm = "sample_manager [sample_position 10, sample_position 10, sample_position 10]"
  have h: "max_positions (rm_config ?rm) \<le> int (length (rm_positions ?rm))"
    by (simp add: sample_manager_def default_risk_config_def)
  have "max_positions (rm_config ?rm) \<le> int (length (rm_positions ?rm)) \<longrightarrow>
      validate_trade ?rm (sample_signal 110) 10000 (Some []) = Inr (False, MaxPositionsReached)"
    using validate_trade_empty_list_uses_registry [of ?rm "sample_signal 110" 10000]
    by (rule conjunct2)
  from this h have "validate_trade ?rm (sample_signal 110) 10000 (Some []) = Inr (False, MaxPositionsReached)"
    by (rule mp)
  with h show ?thesis by (rule conjI)
qed

section \<open>Properties of the pattern detector\<close>

lemma set_map_filter_conv:
  "set (List.map_filter f xs) = {y. \<exists>x \<in> set xs. f x = Some y}"
  by (induction xs) (auto split: option.splits)

lemma set_detect_fvg:
  "set (detect_fair_value_gaps cfg df) =
     {p. \<exists>i. 1 \<le> i \<and> i + 1 < len df \<and> fvg_at cfg df i = Some p}"
proof (cases "len df < 3")
  case True
  then show ?thesis by (auto simp: detect_fair_value_gaps_def)
next
  case False
  have "(1 \<le> i \<and> i + 1 < len df) = (i \<in> set [1 ..< len df - 1])" for i
    by auto
  then show ?thesis using False
    by (simp add: detect_fair_value_gaps_def set_map_filter_conv del: set_upt) blast
qed

lemma fvg_at_timestamp:
  "fvg_at cfg df i = Some p \<Longrightarrow> fvg_timestamp p = timestamp (iloc df i)"
  by (auto simp: fvg_at_def Let_def split: if_splits)

lemma fvg_at_bullish_iff:
  "(\<exists>p. fvg_at cfg df i = Some p \<and> fvg_direction p = ''BULLISH'') \<longleftrightarrow>
     (Low (iloc df (i - 1)) > High (iloc df (i + 1)) \<and> Close (iloc df i) > Open (iloc df i) \<and>
      (Low (iloc df (i - 1)) - High (iloc df (i + 1))) / High (iloc df (i + 1))
        \<ge> get_or (fvg_min_size cfg) 0.001)"
  by (auto simp: fvg_at_def Let_def split: if_splits)

lemma fvg_at_bullish_entry:
  "fvg_at cfg df i = Some p \<Longrightarrow> fvg_direction p = ''BULLISH'' \<Longrightarrow>
     fvg_entry_price p = High (iloc df (i + 1))"
  by (auto simp: fvg_at_def Let_def split: if_splits)

lemma timestamp_inj:
  assumes "distinct (map timestamp (rows df))" "i < len df" "j < len df"
    "timestamp (iloc df i) = timestamp (iloc df j)"
  shows "i = j"
  using assms unfolding len_def iloc_def distinct_conv_nth length_map
  by (metis nth_map)

text \<open>
  C6: on a frame whose index entries are distinct and whose bar \<open>i + 1\<close> has a non-zero
  high, \<^verbatim>\<open>detect_fair_value_gaps\<close> emits a bullish gap for the interior index \<open>i\<close>
  (a pattern stamped with the index entry of bar \<open>i\<close>) if and only if the low of bar
  \<open>i - 1\<close> exceeds the high of bar \<open>i + 1\<close>, bar \<open>i\<close> closes above its open, and the gap
  size \<open>(low - high) / high\<close> is at least the configured minimum; the entry price of that
  pattern is the high of bar \<open>i + 1\<close>.
\<close>

theorem bullish_gap_iff:
  assumes "1 \<le> i" and "i + 1 < len df" and "distinct (map timestamp (rows df))"
    and "High (iloc df (i + 1)) \<noteq> 0"
  shows
    "((\<exists>p \<in> set (detect_fair_value_gaps cfg df).
         fvg_timestamp p = timestamp (iloc df i) \<and> fvg_direction p = ''BULLISH'') \<longleftrightarrow>
      (Low (iloc df (i - 1)) > High (iloc df (i + 1)) \<and> Close (iloc df i) > Open (iloc df i) \<and>
       (Low (iloc df (i - 1)) - High (iloc df (i + 1))) / High (iloc df (i + 1))
         \<ge> get_or (fvg_min_size cfg) 0.001)) \<and>
     (\<forall>p \<in> set (detect_fair_value_gaps cfg df).
         fvg_timestamp p = timestamp (iloc df i) \<and> fvg_direction p = ''BULLISH'' \<longrightarrow>
         fvg_entry_price p = High (iloc df (i + 1)))"
proof -
  have at: "fvg_at cfg df i = Some p"
    if "p \<in> set (detect_fair_value_gaps cfg df)" "fvg_timestamp p = timestamp (iloc df i)" for p
  proof -
    from that(1) obtain j where j: "1 \<le> j" "j + 1 < len df" "fvg_at cfg df j = Some p"
      by (auto simp: set_detect_fvg)
    then have "timestamp (iloc df j) = timestamp (iloc df i)"
      using that(2) fvg_at_timestamp by metis
    then have "j = i"
      using timestamp_inj [OF assms(3), of j i] j(2) assms(2) by simp
    with j(3) show ?thesis by simp
  qed
  have mem: "p \<in> set (detect_fair_value_gaps cfg df)" if "fvg_at cfg df i = Some p" for p
    using that assms(1,2) by (auto simp: set_detect_fvg)
  have "(\<exists>p \<in> set (detect_fair_value_gaps cfg df).
         fvg_timestamp p = timestamp (iloc df i) \<and> fvg_direction p = ''BULLISH'') \<longleftrightarrow>
        (\<exists>p. fvg_at cfg df i = Some p \<and> fvg_direction p = ''BULLISH'')"
    using at mem fvg_at_timestamp by blast
  then have iff: "(\<exists>p \<in> set (detect_fair_value_gaps cfg df).
         fvg_timestamp p = timestamp (iloc df i) \<and> fvg_direction p = ''BULLISH'') \<longleftrightarrow>
      (Low (iloc df (i - 1)) > High (iloc df (i + 1)) \<and> Close (iloc df i) > Open (iloc df i) \<and>
       (Low (iloc df (i - 1)) - High (iloc df (i + 1))) / High (iloc df (i + 1))
         \<ge> get_or (fvg_min_size cfg) 0.001)"
    by (simp only: fvg_at_bullish_iff)
  have entry: "\<forall>p \<in> set (detect_fair_value_gaps cfg df).
         fvg_timestamp p = timestamp (iloc df i) \<and> fvg_direction p = ''BULLISH'' \<longrightarrow>
         fvg_entry_price p = High (iloc df (i + 1))"
    using at fvg_at_bullish_entry by blast
  from iff entry show ?thesis by (rule conjI)
qed

theorem bullish_gap_iff_witness:
  "(1::nat) \<le> 1 \<and> 1 + 1 < len gap_frame \<and> distinct (map timestamp (rows gap_frame)) \<and>
   High (iloc gap_frame (1 + 1)) \<noteq> 0 \<and>
   Low (iloc gap_frame (1 - 1)) = 110 \<and> High (iloc gap_frame (1 + 1)) = 100 \<and>
   (\<exists>p \<in> set (detect_fair_value_gaps default_config gap_frame).
      fvg_timestamp p = timestamp (iloc gap_frame 1) \<and> fvg_direction p = ''BULLISH'') \<and>
   map fvg_entry_price (detect_fair_value_gaps default_config gap_frame) = [100]"
proof -
  have h1: "(1::nat) \<le> 1" by simp
  have h2: "1 + 1 < len gap_frame" by (simp add: gap_frame_def len_def)
  have h3: "distinct (map timestamp (rows gap_frame))" by (simp add: gap_frame_def mk_bar_def)
  have h4: "High (iloc gap_frame (1 + 1)) \<noteq> 0" by (simp add: gap_frame_def iloc_def mk_bar_def)
  have lo: "Low (iloc gap_frame (1 - 1)) = 110" by (simp add: gap_frame_def iloc_def mk_bar_def)
  have hi: "High (iloc gap_frame (1 + 1)) = 100" by (simp add: gap_frame_def iloc_def mk_bar_def)
  have cond: "Low (iloc gap_frame (1 - 1)) > High (iloc gap_frame (1 + 1)) \<and>
      Close (iloc gap_frame 1) > Open (iloc gap_frame 1) \<and>
      (Low (iloc gap_frame (1 - 1)) - High (iloc gap_frame (1 + 1))) / High (iloc gap_frame (1 + 1))
        \<ge> get_or (fvg_min_size default_config) 0.001"
    by (simp add: gap_frame_def iloc_def mk_bar_def default_config_def get_or_def)
  from bullish_gap_iff [OF h1 h2 h3 h4, of default_config] cond
  have ex: "\<exists>p \<in> set (detect_fair_value_gaps default_config gap_frame).
      fvg_timestamp p = timestamp (iloc gap_frame 1) \<and> fvg_direction p = ''BULLISH''"
    by blast
  have ev: "map fvg_entry_price (detect_fair_value_gaps default_config gap_frame) = [100]"
    by (simp add: detect_fair_value_gaps_def gap_frame_def len_def iloc_def mk_bar_def
        fvg_at_def default_config_def get_or_def Let_def)
  from h1 h2 h3 h4 lo hi ex ev show ?thesis by (intro conjI)
qed

text \<open>
  C3 does not hold of the liquidity pools: on 50 identical bars (which satisfy the bar
  invariants) each of the 20 pools has 40 matching neighbours and the strength 40 / 10 = 4,
  outside the interval from 0 to 1.
\<close>

theorem liquidity_pool_strength_exceeds_one:
  "map lp_strength (detect_liquidity_pools default_config (flat_frame 50)) = replicate 20 4"
  by code_simp

section \<open>Properties of the signal generator\<close>

text \<open>
  For an accepted pattern the strength of the signal is the pattern's strength plus the
  volume bonus, capped at 1: the alignment bonus is never part of it.
\<close>

lemma accepted_signal_strength:
  assumes "is_valid_signal (pk_direction p) ms"
  shows "calculate_signal_strength p ms =
     min (get_or (pk_strength p) 0.5
          + (if get_or (pk_volume_confirmation p) False then 0.1 else 0)) 1.0"
proof -
  have "(trend_direction ms = ''UPTREND'' \<and> pk_direction p = ''BULLISH'') \<or>
        (trend_direction ms = ''DOWNTREND'' \<and> pk_direction p = ''BEARISH'')"
    using assms by (auto simp: is_valid_signal_def Let_def split: if_splits)
  then show ?thesis
    by (auto simp: calculate_signal_strength_def upper_def upper_char_def)
qed

text \<open>
  C2 does not hold: a bullish pattern of strength 0.5 without a volume flag is accepted in
  an uptrend and its signal strength is 0.5, not 0.7. The alignment test
  \<^verbatim>\<open>pattern["direction"].upper() in trend\<close> asks whether "BULLISH" is a substring of
  "UPTREND", which it is not.
\<close>

theorem signal_strength_misses_trend_bonus:
  "is_valid_signal ''BULLISH'' uptrend \<and>
   calculate_signal_strength
     \<lparr>pk_strength = Some 0.5, pk_direction = ''BULLISH'', pk_volume_confirmation = None\<rparr> uptrend
     = 0.5"
  by (simp add: is_valid_signal_def calculate_signal_strength_def uptrend_def trend_direction_def
      get_or_def upper_def upper_char_def)

lemma set_insert_by_strength: "set (insert_by_strength s xs) = insert s (set xs)"
  by (induction xs) auto

lemma set_sorted_by_strength: "set (sorted_by_strength xs) = set xs"
  by (induction xs) (simp_all add: sorted_by_strength_def set_insert_by_strength)

text \<open>
  C10: every signal returned by \<^verbatim>\<open>generate_signals\<close> is labelled "Fair Value Gap" or
  "Order Block"; none carries the liquidity-pool label, for every data handler,
  configuration, clock and symbol.
\<close>

theorem signals_only_from_gaps_and_order_blocks:
  "\<forall>s \<in> set (generate_signals dh cfg clk symbol).
     (sig_pattern s = ''Fair Value Gap'' \<or> sig_pattern s = ''Order Block'') \<and>
     sig_pattern s \<noteq> ''Liquidity Pool''"
proof
  fix s
  assume "s \<in> set (generate_signals dh cfg clk symbol)"
  then have "s \<in> set (unsorted_signals dh cfg clk symbol)"
    by (simp add: generate_signals_def set_sorted_by_strength)
  then have "sig_pattern s = ''Fair Value Gap'' \<or> sig_pattern s = ''Order Block''"
    by (auto simp: unsorted_signals_def Let_def fvg_signal_def ob_signal_def)
  then show "(sig_pattern s = ''Fair Value Gap'' \<or> sig_pattern s = ''Order Block'') \<and>
     sig_pattern s \<noteq> ''Liquidity Pool''"
    by auto
qed

theorem signals_only_from_gaps_and_order_blocks_witness:
  "map sig_pattern (generate_signals (fixed_handler swing_frame swing_frame) default_config no_clock ''NQ=F'')
     = [''Order Block'', ''Order Block'', ''Order Block'', ''Order Block'', ''Fair Value Gap''] \<and>
   sig_pattern (hd (generate_signals (fixed_handler swing_frame swing_frame) default_config no_clock ''NQ=F''))
     \<noteq> ''Liquidity Pool''"
proof -
  let ?g = "generate_signals (fixed_handler swing_frame swing_frame) default_config no_clock ''NQ=F''"
  have ev: "map sig_pattern ?g
     = [''Order Block'', ''Order Block'', ''Order Block'', ''Order Block'', ''Fair Value Gap'']"
    by code_simp
  then have "?g \<noteq> []" by auto
  then have "hd ?g \<in> set ?g" by simp
  with signals_only_from_gaps_and_order_blocks
    [of "fixed_handler swing_frame swing_frame" default_config no_clock "''NQ=F''"]
  have "sig_pattern (hd ?g) \<noteq> ''Liquidity Pool''" by blast
  with ev show ?thesis by (rule conjI)
qed

section \<open>Properties of the backtester\<close>

subsection \<open>Cash accounting of a round trip\<close>

lemma close_position_eq:
  "close_position bt d price reason p st =
     st\<lparr>capital := capital st + (calculate_pnl p (exit_price_of bt p price) - commission bt),
        trades := trades st @ [trade_of bt d price reason p]\<rparr>"
  by (simp add: close_position_def trade_of_def Let_def)

lemma close_position_fields:
  "capital (close_position bt d price reason p st) =
     capital st + (calculate_pnl p (exit_price_of bt p price) - commission bt)"
  "trades (close_position bt d price reason p st) = trades st @ [trade_of bt d price reason p]"
  "positions (close_position bt d price reason p st) = positions st"
  "equity_curve (close_position bt d price reason p st) = equity_curve st"
  by (simp_all add: close_position_eq)

lemma exit_fold:
  assumes "positions st = kept @ qs"
    and "\<forall>p \<in> set kept. check_exit_signal dfu p price = None"
  shows "positions (foldl (exit_step bt dfu d price) st qs) =
           kept @ filter (\<lambda>p. check_exit_signal dfu p price = None) qs \<and>
         capital (foldl (exit_step bt dfu d price) st qs) =
           capital st + (\<Sum>p\<leftarrow>filter (\<lambda>p. check_exit_signal dfu p price \<noteq> None) qs.
                          calculate_pnl p (exit_price_of bt p price) - commission bt) \<and>
         trades (foldl (exit_step bt dfu d price) st qs) =
           trades st @ map (\<lambda>p. trade_of bt d price (the (check_exit_signal dfu p price)) p)
                         (filter (\<lambda>p. check_exit_signal dfu p price \<noteq> None) qs) \<and>
         equity_curve (foldl (exit_step bt dfu d price) st qs) = equity_curve st"
  using assms
proof (induction qs arbitrary: st kept)
  case Nil
  then show ?case by simp
next
  case (Cons q qs)
  show ?case
  proof (cases "check_exit_signal dfu q price")
    case None
    have step: "exit_step bt dfu d price st q = st" by (simp add: exit_step_def None)
    have p: "positions st = (kept @ [q]) @ qs" using Cons.prems(1) by simp
    have k: "\<forall>p \<in> set (kept @ [q]). check_exit_signal dfu p price = None"
      using Cons.prems(2) None by simp
    from Cons.IH [OF p k] show ?thesis by (simp add: step None)
  next
    case (Some reason)
    let ?st = "exit_step bt dfu d price st q"
    have notin: "q \<notin> set kept" using Cons.prems(2) Some by auto
    have step: "?st = (close_position bt d price reason q st)\<lparr>positions := kept @ qs\<rparr>"
      using notin by (simp add: exit_step_def Some Cons.prems(1) remove1_append)
    have p: "positions ?st = kept @ qs" by (simp add: step)
    have c: "capital ?st = capital st + (calculate_pnl q (exit_price_of bt q price) - commission bt)"
      by (simp add: step close_position_eq)
    have t: "trades ?st = trades st @ [trade_of bt d price reason q]"
      by (simp add: step close_position_eq)
    have e: "equity_curve ?st = equity_curve st"
      by (simp add: step close_position_eq)
    from Cons.IH [OF p Cons.prems(2)] show ?thesis
      by (simp add: Some c t e)
  qed
qed

lemma exit_positions_eq:
  "positions (exit_positions bt dfu d price st) =
     filter (\<lambda>p. check_exit_signal dfu p price = None) (positions st) \<and>
   capital (exit_positions bt dfu d price st) =
     capital st + (\<Sum>p\<leftarrow>filter (\<lambda>p. check_exit_signal dfu p price \<noteq> None) (positions st).
                    calculate_pnl p (exit_price_of bt p price) - commission bt) \<and>
   trades (exit_positions bt dfu d price st) =
     trades st @ map (\<lambda>p. trade_of bt d price (the (check_exit_signal dfu p price)) p)
                   (filter (\<lambda>p. check_exit_signal dfu p price \<noteq> None) (positions st)) \<and>
   equity_curve (exit_positions bt dfu d price st) = equity_curve st"
  using exit_fold [of st "[]" "positions st" dfu price bt d]
  by (simp add: exit_positions_def)

lemma close_fold:
  "capital (foldl (\<lambda>st p. close_position bt d price reason p st) st qs) =
     capital st + (\<Sum>p\<leftarrow>qs. calculate_pnl p (exit_price_of bt p price) - commission bt) \<and>
   trades (foldl (\<lambda>st p. close_position bt d price reason p st) st qs) =
     trades st @ map (trade_of bt d price reason) qs \<and>
   positions (foldl (\<lambda>st p. close_position bt d price reason p st) st qs) = positions st \<and>
   equity_curve (foldl (\<lambda>st p. close_position bt d price reason p st) st qs) = equity_curve st"
proof (induction qs arbitrary: st)
  case Nil
  show ?case by simp
next
  case (Cons q qs)
  show ?case
    using Cons.IH [of "close_position bt d price reason q st"]
    by (simp add: close_position_fields)
qed

lemma close_remaining_eq:
  "capital (close_remaining bt df st) =
     capital st + (\<Sum>p\<leftarrow>positions st.
                    calculate_pnl p (exit_price_of bt p (Close (last (rows df)))) - commission bt) \<and>
   trades (close_remaining bt df st) =
     trades st @ map (trade_of bt (timestamp (last (rows df))) (Close (last (rows df)))
                        ''End of backtest'') (positions st) \<and>
   equity_curve (close_remaining bt df st) = equity_curve st"
  using close_fold [of bt "timestamp (last (rows df))" "Close (last (rows df))" "''End of backtest''" st "positions st"]
  by (simp add: close_remaining_def Let_def)

lemma enter_opened:
  assumes "enter bt d signals st = Inr st1" and "positions st1 = positions st @ [p]"
  shows "capital st1 = capital st - (real_of_int (bp_quantity p) * bp_entry_price p + commission bt)"
    and "bp_entry_price p = sig_price (hd signals) * (1 + slippage bt)"
proof -
  have "st1 = st \<or>
    (\<exists>a as n. signals = a # as \<and>
       st1 = st\<lparr>capital := capital st - (real_of_int n * (sig_price a * (1 + slippage bt)) + commission bt),
                 positions := positions st @
                   [\<lparr>bp_entry_date = d, bp_entry_price = sig_price a * (1 + slippage bt),
                     bp_direction = sig_direction a, bp_quantity = n,
                     bp_stop_loss = sig_stop_loss a, bp_take_profit = sig_take_profit a,
                     bp_pattern = sig_pattern a\<rparr>]\<rparr>)"
    using assms(1)
    by (cases signals) (auto simp: enter_def admission_def Let_def split: sum.splits if_splits)
  moreover have "st1 \<noteq> st" using assms(2) by auto
  ultimately obtain a as n where sg: "signals = a # as"
    and st1: "st1 = st\<lparr>capital := capital st - (real_of_int n * (sig_price a * (1 + slippage bt)) + commission bt),
                 positions := positions st @
                   [\<lparr>bp_entry_date = d, bp_entry_price = sig_price a * (1 + slippage bt),
                     bp_direction = sig_direction a, bp_quantity = n,
                     bp_stop_loss = sig_stop_loss a, bp_take_profit = sig_take_profit a,
                     bp_pattern = sig_pattern a\<rparr>]\<rparr>"
    by blast
  have p: "p = \<lparr>bp_entry_date = d, bp_entry_price = sig_price a * (1 + slippage bt),
                     bp_direction = sig_direction a, bp_quantity = n,
                     bp_stop_loss = sig_stop_loss a, bp_take_profit = sig_take_profit a,
                     bp_pattern = sig_pattern a\<rparr>"
    using assms(2) by (simp add: st1)
  show "capital st1 = capital st - (real_of_int (bp_quantity p) * bp_entry_price p + commission bt)"
    by (simp add: st1 p)
  show "bp_entry_price p = sig_price (hd signals) * (1 + slippage bt)"
    by (simp add: p sg)
qed

lemma enter_cases:
  assumes "enter bt d signals st = Inr st1"
  shows "st1 = st \<or>
    (\<exists>p. st1 = st\<lparr>capital := capital st - (real_of_int (bp_quantity p) * bp_entry_price p + commission bt),
                    positions := positions st @ [p]\<rparr>)"
proof (cases "admission bt (capital st) signals")
  case (Inl e)
  with assms show ?thesis by (simp add: enter_def)
next
  case (Inr adm)
  show ?thesis
  proof (cases adm)
    case None
    with Inr assms show ?thesis by (simp add: enter_def)
  next
    case (Some sn)
    obtain a n where sn: "sn = (a, n)" by (cases sn)
    let ?p = "\<lparr>bp_entry_date = d, bp_entry_price = sig_price a * (1 + slippage bt),
                bp_direction = sig_direction a, bp_quantity = n,
                bp_stop_loss = sig_stop_loss a, bp_take_profit = sig_take_profit a,
                bp_pattern = sig_pattern a\<rparr>"
    have "st1 = st\<lparr>capital := capital st - (real_of_int (bp_quantity ?p) * bp_entry_price ?p + commission bt),
                    positions := positions st @ [?p]\<rparr>"
      using assms Inr Some sn by (simp add: enter_def Let_def)
    then show ?thesis by blast
  qed
qed

lemma ledger_move:
  "(\<Sum>p\<leftarrow>xs. a p - 2 * c - q p) + (\<Sum>p\<leftarrow>xs. q p + c) = (\<Sum>p\<leftarrow>xs. a p - (c::real))"
  by (induction xs) (simp_all add: algebra_simps)

lemma sum_filter_split:
  "(\<Sum>x\<leftarrow>filter P xs. f x) + (\<Sum>x\<leftarrow>filter (\<lambda>x. \<not> P x) xs. f x) = (\<Sum>x\<leftarrow>xs. (f x :: real))"
  by (induction xs) simp_all

lemma trade_of_fields:
  "tr_pnl (trade_of bt d price reason p) = calculate_pnl p (exit_price_of bt p price)"
  "tr_quantity (trade_of bt d price reason p) = bp_quantity p"
  "tr_entry_price (trade_of bt d price reason p) = bp_entry_price p"
  "tr_exit_price (trade_of bt d price reason p) = exit_price_of bt p price"
  "tr_direction (trade_of bt d price reason p) = bp_direction p"
  "tr_exit_reason (trade_of bt d price reason p) = reason"
  by (simp_all add: trade_of_def)

lemma net_of_trades:
  "(\<Sum>t\<leftarrow>map (\<lambda>p. trade_of bt d price (r p) p) ps.
      tr_pnl t - 2 * commission bt - real_of_int (tr_quantity t) * tr_entry_price t) =
   (\<Sum>p\<leftarrow>ps. calculate_pnl p (exit_price_of bt p price) - 2 * commission bt
             - real_of_int (bp_quantity p) * bp_entry_price p)"
  by (simp add: comp_def trade_of_fields)

lemma balanced_initial: "balanced bt (initial_state bt)"
  by (simp add: balanced_def initial_state_def)

lemma balanced_record_equity: "balanced bt (record_equity d price st) = balanced bt st"
  by (simp add: balanced_def record_equity_def Let_def)

lemma balanced_exit_positions:
  assumes "balanced bt st"
  shows "balanced bt (exit_positions bt dfu d price st)"
proof -
  let ?P = "\<lambda>p. check_exit_signal dfu p price \<noteq> None"
  let ?fired = "filter ?P (positions st)"
  let ?cost = "\<lambda>p. real_of_int (bp_quantity p) * bp_entry_price p + commission bt"
  let ?pnl = "\<lambda>p. calculate_pnl p (exit_price_of bt p price)"
  note e = exit_positions_eq [of bt dfu d price st]
  have kept: "filter (\<lambda>p. check_exit_signal dfu p price = None) (positions st)
      = filter (\<lambda>p. \<not> ?P p) (positions st)"
    by simp
  have split: "(\<Sum>p\<leftarrow>?fired. ?cost p) + (\<Sum>p\<leftarrow>filter (\<lambda>p. \<not> ?P p) (positions st). ?cost p)
      = (\<Sum>p\<leftarrow>positions st. ?cost p)"
    by (rule sum_filter_split)
  have move: "(\<Sum>p\<leftarrow>?fired. ?pnl p - 2 * commission bt - real_of_int (bp_quantity p) * bp_entry_price p)
      + (\<Sum>p\<leftarrow>?fired. ?cost p) = (\<Sum>p\<leftarrow>?fired. ?pnl p - commission bt)"
    by (rule ledger_move)
  have p: "positions (exit_positions bt dfu d price st)
      = filter (\<lambda>p. check_exit_signal dfu p price = None) (positions st)"
    using e by (rule conjunct1)
  have c: "capital (exit_positions bt dfu d price st) = capital st + (\<Sum>p\<leftarrow>?fired. ?pnl p - commission bt)"
    using e by (elim conjE)
  have t: "trades (exit_positions bt dfu d price st)
      = trades st @ map (\<lambda>p. trade_of bt d price (the (check_exit_signal dfu p price)) p) ?fired"
    using e by (elim conjE)
  have net: "(\<Sum>t\<leftarrow>trades (exit_positions bt dfu d price st).
        tr_pnl t - 2 * commission bt - real_of_int (tr_quantity t) * tr_entry_price t)
      = (\<Sum>t\<leftarrow>trades st. tr_pnl t - 2 * commission bt - real_of_int (tr_quantity t) * tr_entry_price t)
        + (\<Sum>p\<leftarrow>?fired. ?pnl p - 2 * commission bt - real_of_int (bp_quantity p) * bp_entry_price p)"
    by (simp only: t map_append sum_list_append net_of_trades)
  have goal: "capital st + (\<Sum>p\<leftarrow>?fired. ?pnl p - commission bt) =
      initial_capital bt
      + ((\<Sum>t\<leftarrow>trades st. tr_pnl t - 2 * commission bt - real_of_int (tr_quantity t) * tr_entry_price t)
         + (\<Sum>p\<leftarrow>?fired. ?pnl p - 2 * commission bt - real_of_int (bp_quantity p) * bp_entry_price p))
      - (\<Sum>p\<leftarrow>filter (\<lambda>p. \<not> ?P p) (positions st). ?cost p)"
    using assms [unfolded balanced_def] split move by linarith
  show ?thesis
    unfolding balanced_def c net p kept by (rule goal)
qed

lemma balanced_enter:
  assumes "balanced bt st" and "enter bt d signals st = Inr st1"
  shows "balanced bt st1"
  using enter_cases [OF assms(2)] assms(1) by (auto simp: balanced_def)

lemma balanced_bar_step:
  assumes "balanced bt st" and "bar_step bt dh clk symbol df i st = Inr st1"
  shows "balanced bt st1"
proof -
  have b: "balanced bt (bar_state_before_entry bt df i st)"
    using assms(1)
    by (simp add: bar_state_before_entry_def Let_def balanced_exit_positions balanced_record_equity)
  show ?thesis
  proof (cases "length (positions (bar_state_before_entry bt df i st)) < 3")
    case True
    then have "enter bt (timestamp (iloc df i)) (generate_signals dh default_config clk symbol)
        (bar_state_before_entry bt df i st) = Inr st1"
      using assms(2) by (simp add: bar_step_def Let_def)
    with b show ?thesis by (rule balanced_enter)
  next
    case False
    then have "st1 = bar_state_before_entry bt df i st"
      using assms(2) by (simp add: bar_step_def Let_def)
    with b show ?thesis by simp
  qed
qed

lemma balanced_run_bars:
  assumes "balanced bt st" and "run_bars bt dh clocks symbol df ixs st = Inr st1"
  shows "balanced bt st1"
  using assms
proof (induction ixs arbitrary: st)
  case Nil
  then show ?case by simp
next
  case (Cons i ixs)
  from Cons.prems(2) obtain st' where
    s: "bar_step bt dh (clocks i) symbol df i st = Inr st'"
    and r: "run_bars bt dh clocks symbol df ixs st' = Inr st1"
    by (auto split: sum.splits)
  from Cons.prems(1) s have "balanced bt st'" by (rule balanced_bar_step)
  from Cons.IH [OF this r] show ?case .
qed

lemma check_exit_reason:
  "check_exit_signal dfu p price = Some r \<Longrightarrow> r = ''Stop Loss'' \<or> r = ''Take Profit''"
  by (auto simp: check_exit_signal_def split: if_splits)

lemma settled_trade_of:
  "reason \<in> {''Stop Loss'', ''Take Profit'', ''End of backtest''} \<Longrightarrow>
     settled (trade_of bt d price reason p)"
  by (simp add: settled_def trade_of_def calculate_pnl_def)

lemma settled_exit_positions:
  assumes "\<forall>t \<in> set (trades st). settled t"
  shows "\<forall>t \<in> set (trades (exit_positions bt dfu d price st)). settled t"
proof -
  have t: "trades (exit_positions bt dfu d price st)
      = trades st @ map (\<lambda>p. trade_of bt d price (the (check_exit_signal dfu p price)) p)
          (filter (\<lambda>p. check_exit_signal dfu p price \<noteq> None) (positions st))"
    using exit_positions_eq [of bt dfu d price st] by (elim conjE)
  have "settled (trade_of bt d price (the (check_exit_signal dfu p price)) p)"
    if "check_exit_signal dfu p price \<noteq> None" for p
  proof -
    from that obtain r where r: "check_exit_signal dfu p price = Some r" by auto
    then have "r \<in> {''Stop Loss'', ''Take Profit'', ''End of backtest''}"
      using check_exit_reason [OF r] by auto
    then show ?thesis by (simp add: r settled_trade_of)
  qed
  then show ?thesis using assms unfolding t by auto
qed

lemma settled_bar_step:
  assumes "\<forall>t \<in> set (trades st). settled t"
    and "bar_step bt dh clk symbol df i st = Inr st1"
  shows "\<forall>t \<in> set (trades st1). settled t"
proof -
  let ?b = "bar_state_before_entry bt df i st"
  have re: "\<forall>t \<in> set (trades (record_equity d price st)). settled t" for d price
    using assms(1) by (simp add: record_equity_def Let_def)
  have b: "\<forall>t \<in> set (trades ?b). settled t"
    unfolding bar_state_before_entry_def Let_def by (rule settled_exit_positions [OF re])
  have "trades st1 = trades ?b"
  proof (cases "length (positions ?b) < 3")
    case True
    then have "enter bt (timestamp (iloc df i)) (generate_signals dh default_config clk symbol) ?b = Inr st1"
      using assms(2) by (simp add: bar_step_def Let_def)
    from enter_cases [OF this] show ?thesis by auto
  next
    case False
    then show ?thesis using assms(2) by (simp add: bar_step_def Let_def)
  qed
  with b show ?thesis by simp
qed

lemma settled_run_bars:
  assumes "\<forall>t \<in> set (trades st). settled t"
    and "run_bars bt dh clocks symbol df ixs st = Inr st1"
  shows "\<forall>t \<in> set (trades st1). settled t"
  using assms
proof (induction ixs arbitrary: st)
  case Nil
  then show ?case by simp
next
  case (Cons i ixs)
  from Cons.prems(2) obtain st' where
    s: "bar_step bt dh (clocks i) symbol df i st = Inr st'"
    and r: "run_bars bt dh clocks symbol df ixs st' = Inr st1"
    by (auto split: sum.splits)
  from Cons.prems(1) s have "\<forall>t \<in> set (trades st'). settled t" by (rule settled_bar_step)
  from Cons.IH [OF this r] show ?case .
qed

lemma sum_list_diff:
  "(\<Sum>p\<leftarrow>xs. f p) - (\<Sum>p\<leftarrow>xs. g p) = (\<Sum>p\<leftarrow>xs. f p - (g p :: real))"
  by (induction xs) simp_all

lemma bar_step_opened:
  assumes "bar_step bt dh clk symbol df i st = Inr st1"
    and "positions st1 = positions (bar_state_before_entry bt df i st) @ [p]"
  shows "capital st1 = capital (bar_state_before_entry bt df i st)
        - (real_of_int (bp_quantity p)
             * (sig_price (hd (generate_signals dh default_config clk symbol)) * (1 + slippage bt))
           + commission bt) \<and>
      bp_entry_price p = sig_price (hd (generate_signals dh default_config clk symbol)) * (1 + slippage bt)"
proof -
  let ?b = "bar_state_before_entry bt df i st"
  have "st1 \<noteq> ?b" using assms(2) by auto
  then have e: "enter bt (timestamp (iloc df i)) (generate_signals dh default_config clk symbol) ?b = Inr st1"
    using assms(1) by (simp add: bar_step_def Let_def split: if_splits)
  from enter_opened [OF e assms(2)] show ?thesis by simp
qed

lemma run_bars_ledger:
  assumes "run_bars bt dh clocks symbol df ixs (initial_state bt) = Inr st2"
  shows "capital st2 =
       initial_capital bt
       + (\<Sum>t\<leftarrow>trades st2. tr_pnl t - 2 * commission bt - real_of_int (tr_quantity t) * tr_entry_price t)
       - (\<Sum>p\<leftarrow>positions st2. real_of_int (bp_quantity p) * bp_entry_price p + commission bt)"
  using balanced_run_bars [OF balanced_initial assms] by (simp add: balanced_def)

lemma run_bars_equity:
  assumes "run_bars bt dh clocks symbol df ixs (initial_state bt) = Inr st2"
  shows "es_equity (last (equity_curve (record_equity d' price' st2))) =
       initial_capital bt
       + (\<Sum>t\<leftarrow>trades st2. tr_pnl t - 2 * commission bt - real_of_int (tr_quantity t) * tr_entry_price t)
       + (\<Sum>p\<leftarrow>positions st2. real_of_int (bp_quantity p) * price'
                              - (real_of_int (bp_quantity p) * bp_entry_price p + commission bt))"
proof -
  have "es_equity (last (equity_curve (record_equity d' price' st2))) =
      capital st2 + (\<Sum>p\<leftarrow>positions st2. real_of_int (bp_quantity p) * price')"
    by (simp add: record_equity_def Let_def)
  then show ?thesis
    using run_bars_ledger [OF assms]
      sum_list_diff [of "\<lambda>p. real_of_int (bp_quantity p) * price'" "positions st2"
        "\<lambda>p. real_of_int (bp_quantity p) * bp_entry_price p + commission bt"]
    by linarith
qed

lemma run_backtest_ledger:
  assumes "run_backtest bt dh clocks symbol start_date end_date interval = Inr (Report r)"
  shows "rp_final_capital r =
       initial_capital bt
       + (\<Sum>t\<leftarrow>rp_trades r. tr_pnl t - 2 * commission bt - real_of_int (tr_quantity t) * tr_entry_price t)"
    and "\<forall>t \<in> set (rp_trades r). settled t"
proof -
  let ?df = "get_historical_data dh symbol start_date end_date interval"
  from assms obtain st where
    run: "run_bars bt dh clocks symbol ?df [100 ..< len ?df] (initial_state bt) = Inr st"
    and fc: "rp_final_capital r = capital (close_remaining bt ?df st)"
    and tr: "rp_trades r = trades (close_remaining bt ?df st)"
    by (auto simp: run_backtest_def Let_def split: if_splits sum.splits)
  let ?d = "timestamp (last (rows ?df))" and ?price = "Close (last (rows ?df))"
  let ?pnl = "\<lambda>p. calculate_pnl p (exit_price_of bt p ?price)"
  note c = close_remaining_eq [of bt ?df st]
  have cc: "capital (close_remaining bt ?df st) = capital st + (\<Sum>p\<leftarrow>positions st. ?pnl p - commission bt)"
    using c by (elim conjE)
  have ct: "trades (close_remaining bt ?df st) =
      trades st @ map (\<lambda>p. trade_of bt ?d ?price ''End of backtest'' p) (positions st)"
    using c by (elim conjE)
  have net: "(\<Sum>t\<leftarrow>trades (close_remaining bt ?df st).
        tr_pnl t - 2 * commission bt - real_of_int (tr_quantity t) * tr_entry_price t)
      = (\<Sum>t\<leftarrow>trades st. tr_pnl t - 2 * commission bt - real_of_int (tr_quantity t) * tr_entry_price t)
        + (\<Sum>p\<leftarrow>positions st. ?pnl p - 2 * commission bt - real_of_int (bp_quantity p) * bp_entry_price p)"
    by (simp only: ct map_append sum_list_append net_of_trades)
  have move: "(\<Sum>p\<leftarrow>positions st. ?pnl p - 2 * commission bt - real_of_int (bp_quantity p) * bp_entry_price p)
      + (\<Sum>p\<leftarrow>positions st. real_of_int (bp_quantity p) * bp_entry_price p + commission bt)
      = (\<Sum>p\<leftarrow>positions st. ?pnl p - commission bt)"
    by (rule ledger_move)
  show "rp_final_capital r =
       initial_capital bt
       + (\<Sum>t\<leftarrow>rp_trades r. tr_pnl t - 2 * commission bt - real_of_int (tr_quantity t) * tr_entry_price t)"
    unfolding fc tr net cc using run_bars_ledger [OF run] move by linarith
  have s: "\<forall>t \<in> set (trades st). settled t"
    using settled_run_bars [OF _ run] by (simp add: initial_state_def)
  show "\<forall>t \<in> set (rp_trades r). settled t"
    unfolding tr ct using s by (auto simp: settled_trade_of)
qed

text \<open>
  C4: in \<^verbatim>\<open>run_backtest\<close>, a bar whose step 3 opens a position \<open>p\<close> debits the cash by
  quantity \<open>\<times>\<close> signal price \<open>\<times>\<close> (1 + slippage) plus the commission. The exit loop closes
  exactly the positions whose stop or target fires and the final loop closes every
  remaining one, and each closing credits only the profit or loss less the commission.
  So after any number of bars the cash is the initial capital, plus for every logged trade
  its profit or loss less two commissions less its entry principal, less the entry cost
  of the positions still open; the equity recorded next marks the open positions at
  quantity \<open>\<times>\<close> close and carries the same loss for every closed trade; and the final
  capital of the report is the initial capital plus, over the whole trade log, profit or
  loss less two commissions less quantity \<open>\<times>\<close> entry price, where every logged profit or
  loss is \<open>(exit - entry) \<times> quantity\<close> for LONG and mirrored otherwise, with the exit reason
  Stop Loss, Take Profit or End of backtest. The entry principal never comes back, also
  for a break-even trade.
\<close>

theorem round_trip_loses_entry_principal:
  "(\<forall>st1 p.
      bar_step bt dh clk symbol df i st = Inr st1 \<and>
      positions st1 = positions (bar_state_before_entry bt df i st) @ [p] \<longrightarrow>
      capital st1 =
        capital (bar_state_before_entry bt df i st)
        - (real_of_int (bp_quantity p)
             * (sig_price (hd (generate_signals dh default_config clk symbol)) * (1 + slippage bt))
           + commission bt) \<and>
      bp_entry_price p =
        sig_price (hd (generate_signals dh default_config clk symbol)) * (1 + slippage bt)) \<and>
   (positions (exit_positions bt dfu d price sb) =
      filter (\<lambda>p. check_exit_signal dfu p price = None) (positions sb) \<and>
    capital (exit_positions bt dfu d price sb) =
      capital sb
      + (\<Sum>p\<leftarrow>filter (\<lambda>p. check_exit_signal dfu p price \<noteq> None) (positions sb).
           calculate_pnl p (exit_price_of bt p price) - commission bt) \<and>
    trades (exit_positions bt dfu d price sb) =
      trades sb @ map (\<lambda>p. trade_of bt d price (the (check_exit_signal dfu p price)) p)
                    (filter (\<lambda>p. check_exit_signal dfu p price \<noteq> None) (positions sb))) \<and>
   (capital (close_remaining bt df sc) =
      capital sc
      + (\<Sum>p\<leftarrow>positions sc.
           calculate_pnl p (exit_price_of bt p (Close (last (rows df)))) - commission bt) \<and>
    trades (close_remaining bt df sc) =
      trades sc @ map (trade_of bt (timestamp (last (rows df))) (Close (last (rows df)))
                         ''End of backtest'') (positions sc)) \<and>
   (\<forall>st2.
      run_bars bt dh clocks symbol df ixs (initial_state bt) = Inr st2 \<longrightarrow>
      capital st2 =
        initial_capital bt
        + (\<Sum>t\<leftarrow>trades st2.
             tr_pnl t - 2 * commission bt - real_of_int (tr_quantity t) * tr_entry_price t)
        - (\<Sum>p\<leftarrow>positions st2. real_of_int (bp_quantity p) * bp_entry_price p + commission bt) \<and>
      (\<forall>d' price'.
         es_equity (last (equity_curve (record_equity d' price' st2))) =
           initial_capital bt
           + (\<Sum>t\<leftarrow>trades st2.
                tr_pnl t - 2 * commission bt - real_of_int (tr_quantity t) * tr_entry_price t)
           + (\<Sum>p\<leftarrow>positions st2.
                real_of_int (bp_quantity p) * price'
                - (real_of_int (bp_quantity p) * bp_entry_price p + commission bt)))) \<and>
   (\<forall>r.
      run_backtest bt dh clocks symbol start_date end_date interval = Inr (Report r) \<longrightarrow>
      rp_final_capital r =
        initial_capital bt
        + (\<Sum>t\<leftarrow>rp_trades r.
             tr_pnl t - 2 * commission bt - real_of_int (tr_quantity t) * tr_entry_price t) \<and>
      (\<forall>t \<in> set (rp_trades r).
         tr_pnl t =
           (if tr_direction t = ''LONG''
            then (tr_exit_price t - tr_entry_price t) * real_of_int (tr_quantity t)
            else (tr_entry_price t - tr_exit_price t) * real_of_int (tr_quantity t)) \<and>
         tr_exit_reason t \<in> {''Stop Loss'', ''Take Profit'', ''End of backtest''}))"
proof (intro conjI allI impI ballI)
  fix st1 p
  assume a: "bar_step bt dh clk symbol df i st = Inr st1 \<and>
      positions st1 = positions (bar_state_before_entry bt df i st) @ [p]"
  then have o: "capital st1 = capital (bar_state_before_entry bt df i st)
        - (real_of_int (bp_quantity p)
             * (sig_price (hd (generate_signals dh default_config clk symbol)) * (1 + slippage bt))
           + commission bt) \<and>
      bp_entry_price p = sig_price (hd (generate_signals dh default_config clk symbol)) * (1 + slippage bt)"
    by (intro bar_step_opened) simp_all
  from o show "capital st1 =
        capital (bar_state_before_entry bt df i st)
        - (real_of_int (bp_quantity p)
             * (sig_price (hd (generate_signals dh default_config clk symbol)) * (1 + slippage bt))
           + commission bt)"
    by (rule conjunct1)
  from o show "bp_entry_price p =
        sig_price (hd (generate_signals dh default_config clk symbol)) * (1 + slippage bt)"
    by (rule conjunct2)
next
  note e = exit_positions_eq [of bt dfu d price sb]
  from e show "positions (exit_positions bt dfu d price sb) =
      filter (\<lambda>p. check_exit_signal dfu p price = None) (positions sb)"
    by (elim conjE)
  from e show "capital (exit_positions bt dfu d price sb) =
      capital sb
      + (\<Sum>p\<leftarrow>filter (\<lambda>p. check_exit_signal dfu p price \<noteq> None) (positions sb).
           calculate_pnl p (exit_price_of bt p price) - commission bt)"
    by (elim conjE)
  from e show "trades (exit_positions bt dfu d price sb) =
      trades sb @ map (\<lambda>p. trade_of bt d price (the (check_exit_signal dfu p price)) p)
                    (filter (\<lambda>p. check_exit_signal dfu p price \<noteq> None) (positions sb))"
    by (elim conjE)
next
  note c = close_remaining_eq [of bt df sc]
  from c show "capital (close_remaining bt df sc) =
      capital sc
      + (\<Sum>p\<leftarrow>positions sc.
           calculate_pnl p (exit_price_of bt p (Close (last (rows df)))) - commission bt)"
    by (elim conjE)
  from c show "trades (close_remaining bt df sc) =
      trades sc @ map (trade_of bt (timestamp (last (rows df))) (Close (last (rows df)))
                         ''End of backtest'') (positions sc)"
    by (elim conjE)
next
  fix st2
  assume r: "run_bars bt dh clocks symbol df ixs (initial_state bt) = Inr st2"
  from r show "capital st2 =
        initial_capital bt
        + (\<Sum>t\<leftarrow>trades st2.
             tr_pnl t - 2 * commission bt - real_of_int (tr_quantity t) * tr_entry_price t)
        - (\<Sum>p\<leftarrow>positions st2. real_of_int (bp_quantity p) * bp_entry_price p + commission bt)"
    by (rule run_bars_ledger)
  fix d' price'
  from r show "es_equity (last (equity_curve (record_equity d' price' st2))) =
           initial_capital bt
           + (\<Sum>t\<leftarrow>trades st2.
                tr_pnl t - 2 * commission bt - real_of_int (tr_quantity t) * tr_entry_price t)
           + (\<Sum>p\<leftarrow>positions st2.
                real_of_int (bp_quantity p) * price'
                - (real_of_int (bp_quantity p) * bp_entry_price p + commission bt))"
    by (rule run_bars_equity)
next
  fix r
  assume r: "run_backtest bt dh clocks symbol start_date end_date interval = Inr (Report r)"
  from r show "rp_final_capital r =
        initial_capital bt
        + (\<Sum>t\<leftarrow>rp_trades r.
             tr_pnl t - 2 * commission bt - real_of_int (tr_quantity t) * tr_entry_price t)"
    by (rule run_backtest_ledger(1))
  fix t
  assume "t \<in> set (rp_trades r)"
  with run_backtest_ledger(2) [OF r] have s: "settled t" by blast
  from s show "tr_pnl t =
           (if tr_direction t = ''LONG''
            then (tr_exit_price t - tr_entry_price t) * real_of_int (tr_quantity t)
            else (tr_entry_price t - tr_exit_price t) * real_of_int (tr_quantity t))"
    by (simp add: settled_def)
  from s show "tr_exit_reason t \<in> {''Stop Loss'', ''Take Profit'', ''End of backtest''}"
    by (simp add: settled_def)
qed

theorem round_trip_loses_entry_principal_witness:
  "bar_step default_backtester swing_handler no_clock ''NQ=F'' (flat_frame 102) 100
       (initial_state default_backtester) = Inr first_state \<and>
   positions first_state =
     positions (bar_state_before_entry default_backtester (flat_frame 102) 100
                  (initial_state default_backtester)) @ [first_position] \<and>
   sig_price (hd (generate_signals swing_handler default_config no_clock ''NQ=F'')) = 101 \<and>
   capital first_state = 10000 - (26 * (101 * (1 + 0.001)) + 2) \<and>
   check_exit_signal [] first_position 100 = Some ''Stop Loss'' \<and>
   positions (exit_positions default_backtester [] 101 100 first_state) = [] \<and>
   capital (exit_positions default_backtester [] 101 100 first_state)
     = 10000 - 26 * 101.101 - 2 * 2 + 26.026 \<and>
   capital (close_remaining default_backtester (flat_frame 102) first_state)
     = 10000 - 26 * 101.101 - 2 * 2 + 26.026 \<and>
   run_bars default_backtester swing_handler (\<lambda>i. no_clock) ''NQ=F'' (flat_frame 102) [100]
       (initial_state default_backtester) = Inr first_state \<and>
   es_equity (last (equity_curve (record_equity 101 100 first_state)))
     = 10000 + (26 * 100 - (26 * 101.101 + 2)) \<and>
   run_backtest default_backtester swing_handler (\<lambda>i. no_clock) ''NQ=F''
       ''2023-01-01'' ''2023-12-31'' ''1h'' = Inr (Report swing_report) \<and>
   map tr_exit_reason (rp_trades swing_report) = [''Stop Loss'', ''End of backtest''] \<and>
   rp_final_capital swing_report
     = 10000 + ((26.026 - 2 * 2 - 26 * 101.101) + (19.019 - 2 * 2 - 19 * 101.101)) \<and>
   capital gap_state = 10000 - (25 * 107.107 + 2) \<and>
   check_exit_signal [] gap_position 107 = Some ''Take Profit'' \<and>
   exit_price_of default_backtester gap_position 107 = bp_entry_price gap_position \<and>
   capital (exit_positions default_backtester [] 101 107 gap_state) = 10000 - 25 * 107.107 - 2 * 2"
proof -
  let ?bt = default_backtester
  let ?st0 = "initial_state default_backtester"
  let ?df = "flat_frame 102"
  have step: "bar_step ?bt swing_handler no_clock ''NQ=F'' ?df 100 ?st0 = Inr first_state"
    by code_simp
  have before: "bar_state_before_entry ?bt ?df 100 ?st0 =
      ?st0\<lparr>equity_curve :=
        [\<lparr>es_date = 100, es_equity = 10000, es_cash = 10000, es_positions_value = 0\<rparr>]\<rparr>"
    by code_simp
  have opened: "positions first_state = positions (bar_state_before_entry ?bt ?df 100 ?st0) @ [first_position]"
    unfolding before by (simp add: first_state_def initial_state_def)
  have cap0: "capital (bar_state_before_entry ?bt ?df 100 ?st0) = 10000"
    unfolding before by (simp add: initial_state_def default_backtester_def)
  have price: "sig_price (hd (generate_signals swing_handler default_config no_clock ''NQ=F'')) = 101"
    by code_simp
  have run1: "run_bars ?bt swing_handler (\<lambda>i. no_clock) ''NQ=F'' ?df [100] ?st0 = Inr first_state"
    by (simp add: step)
  have run: "run_backtest ?bt swing_handler (\<lambda>i. no_clock) ''NQ=F''
       ''2023-01-01'' ''2023-12-31'' ''1h'' = Inr (Report swing_report)"
    by code_simp
  have bt: "commission ?bt = 2" "slippage ?bt = 0.001" "initial_capital ?bt = 10000"
    by (simp_all add: default_backtester_def)
  have fp: "bp_quantity first_position = 26" "bp_entry_price first_position = 101.101"
    "bp_direction first_position = ''BULLISH''"
    by (simp_all add: first_position_def)
  have fs: "capital first_state = 7369.374" "positions first_state = [first_position]"
    "trades first_state = []"
    by (simp_all add: first_state_def)
  have fires: "check_exit_signal [] first_position 100 = Some ''Stop Loss''"
    by (simp add: check_exit_signal_def first_position_def)
  have pnl: "calculate_pnl first_position (exit_price_of ?bt first_position 100) = 26.026"
    by (simp add: calculate_pnl_def exit_price_of_def fp bt)
  have last_close: "Close (last (rows ?df)) = 100"
    by code_simp

  note T0 = round_trip_loses_entry_principal
    [where bt = ?bt and dh = swing_handler and clk = no_clock and symbol = "''NQ=F''"
       and df = ?df and i = 100 and st = ?st0 and sb = first_state and dfu = "[]" and d = 101
       and price = 100 and sc = first_state and clocks = "\<lambda>i. no_clock" and ixs = "[100]"
       and start_date = "''2023-01-01''" and end_date = "''2023-12-31''" and interval = "''1h''"]
  note A = T0 [THEN conjunct1, rule_format, OF conjI [OF step opened]]
  note B = T0 [THEN conjunct2, THEN conjunct1]
  note C = T0 [THEN conjunct2, THEN conjunct2, THEN conjunct1]
  note D = T0 [THEN conjunct2, THEN conjunct2, THEN conjunct2, THEN conjunct1, rule_format, OF run1]
  note E = T0 [THEN conjunct2, THEN conjunct2, THEN conjunct2, THEN conjunct2, rule_format, OF run]

  from A have c1: "capital first_state = 10000 - (26 * (101 * (1 + 0.001)) + 2)"
    by (simp add: cap0 price bt fp)
  from B have b1: "positions (exit_positions ?bt [] 101 100 first_state) = []"
    by (simp add: fs fires)
  from B have b2: "capital (exit_positions ?bt [] 101 100 first_state)
     = 10000 - 26 * 101.101 - 2 * 2 + 26.026"
    by (simp add: fs fires pnl bt)
  from C have c2: "capital (close_remaining ?bt ?df first_state)
     = 10000 - 26 * 101.101 - 2 * 2 + 26.026"
    by (simp add: fs last_close pnl bt)
  from D have d1: "es_equity (last (equity_curve (record_equity 101 100 first_state)))
     = 10000 + (26 * 100 - (26 * 101.101 + 2))"
    by (simp add: fs fp bt)
  have reasons: "map tr_exit_reason (rp_trades swing_report) = [''Stop Loss'', ''End of backtest'']"
    by (simp add: swing_report_def)
  from E have e1: "rp_final_capital swing_report
     = 10000 + ((26.026 - 2 * 2 - 26 * 101.101) + (19.019 - 2 * 2 - 19 * 101.101))"
    by (simp add: swing_report_def bt)
  have gs: "capital gap_state = 10000 - (25 * 107.107 + 2)" "positions gap_state = [gap_position]"
    by (simp_all add: gap_state_def)
  have gfires: "check_exit_signal [] gap_position 107 = Some ''Take Profit''"
    by (simp add: check_exit_signal_def gap_position_def)
  have even: "exit_price_of ?bt gap_position 107 = bp_entry_price gap_position"
    by (simp add: exit_price_of_def gap_position_def default_backtester_def)
  have gpnl: "calculate_pnl gap_position (exit_price_of ?bt gap_position 107) = 0"
    by (simp add: even calculate_pnl_def)
  note G = round_trip_loses_entry_principal
    [where bt = ?bt and sb = gap_state and dfu = "[]" and d = 101 and price = 107,
     THEN conjunct2, THEN conjunct1]
  from G have g1: "capital (exit_positions ?bt [] 101 107 gap_state) = 10000 - 25 * 107.107 - 2 * 2"
    by (simp add: gs gfires gpnl bt)
  from step opened price c1 fires b1 b2 c2 run1 d1 run reasons e1 gs(1) gfires even g1
  show ?thesis
    by (intro conjI)
qed

subsection \<open>Determinism\<close>

lemma trend_direction_clock:
  "trend_direction (analyze_market_structure dh cfg c1 symbol) =
   trend_direction (analyze_market_structure dh cfg c2 symbol)"
  by (simp add: analyze_market_structure_def trend_direction_def Let_def)

lemma is_valid_signal_trend:
  "trend_direction ms1 = trend_direction ms2 \<Longrightarrow> is_valid_signal d ms1 = is_valid_signal d ms2"
  by (simp add: is_valid_signal_def)

lemma signal_strength_trend:
  "trend_direction ms1 = trend_direction ms2 \<Longrightarrow>
     calculate_signal_strength p ms1 = calculate_signal_strength p ms2"
  by (simp add: calculate_signal_strength_def)

lemma erase_fvg_signal:
  "trend_direction ms1 = trend_direction ms2 \<Longrightarrow>
     erase_timestamp (fvg_signal ms1 t1 f) = erase_timestamp (fvg_signal ms2 t2 f)"
  by (simp add: erase_timestamp_def fvg_signal_def signal_strength_trend [of ms1 ms2])

lemma erase_ob_signal:
  "trend_direction ms1 = trend_direction ms2 \<Longrightarrow>
     erase_timestamp (ob_signal ms1 t1 b) = erase_timestamp (ob_signal ms2 t2 b)"
  by (simp add: erase_timestamp_def ob_signal_def signal_strength_trend [of ms1 ms2])

lemma map_numbered:
  assumes "\<And>k x. h (f k x) = g x" and "length ks = length xs"
  shows "map h (map (\<lambda>(k, x). f k x) (zip ks xs)) = map g xs"
  using assms(2) by (induction ks xs rule: list_induct2) (simp_all add: assms(1))

lemma erase_unsorted_signals:
  "map erase_timestamp (unsorted_signals dh cfg c1 symbol) =
   map erase_timestamp (unsorted_signals dh cfg c2 symbol)"
proof -
  let ?ms1 = "analyze_market_structure dh cfg c1 symbol"
  let ?ms2 = "analyze_market_structure dh cfg c2 symbol"
  let ?df = "get_price_data dh symbol (lookback_period cfg) ''1h''"
  have t: "trend_direction ?ms1 = trend_direction ?ms2" by (rule trend_direction_clock)
  let ?vf = "filter (\<lambda>f. is_valid_signal (fvg_direction f) ?ms2) (detect_fair_value_gaps cfg ?df)"
  let ?vb = "filter (\<lambda>b. is_valid_signal (ob_direction b) ?ms2) (detect_order_blocks cfg ?df)"
  have vf: "filter (\<lambda>f. is_valid_signal (fvg_direction f) ?ms1) (detect_fair_value_gaps cfg ?df) = ?vf"
    by (simp add: is_valid_signal_trend [OF t])
  have vb: "filter (\<lambda>b. is_valid_signal (ob_direction b) ?ms1) (detect_order_blocks cfg ?df) = ?vb"
    by (simp add: is_valid_signal_trend [OF t])
  have f1: "map erase_timestamp (map (\<lambda>(k, f). fvg_signal ms (c (k + 1)) f) (zip [0 ..< length ?vf] ?vf))
      = map (\<lambda>f. erase_timestamp (fvg_signal ?ms2 [] f)) ?vf"
    if "trend_direction ms = trend_direction ?ms2" for ms c
    by (rule map_numbered) (simp_all add: erase_fvg_signal [OF that])
  have b1: "map erase_timestamp (map (\<lambda>(k, b). ob_signal ms (c (n + k + 1)) b) (zip [0 ..< length ?vb] ?vb))
      = map (\<lambda>b. erase_timestamp (ob_signal ?ms2 [] b)) ?vb"
    if "trend_direction ms = trend_direction ?ms2" for ms c n
    by (rule map_numbered) (simp_all add: erase_ob_signal [OF that])
  show ?thesis
    unfolding unsorted_signals_def Let_def vf vb map_append
    by (simp only: f1 [OF t] f1 [OF refl] b1 [OF t] b1 [OF refl])
qed

lemma erase_insert_by_strength:
  "map erase_timestamp (insert_by_strength s xs) =
   insert_by_strength (erase_timestamp s) (map erase_timestamp xs)"
  by (induction xs) (simp_all add: erase_timestamp_def)

lemma erase_sorted_by_strength:
  "map erase_timestamp (sorted_by_strength xs) = sorted_by_strength (map erase_timestamp xs)"
  by (induction xs) (simp_all add: sorted_by_strength_def erase_insert_by_strength)

lemma erase_generate_signals:
  "map erase_timestamp (generate_signals dh cfg c1 symbol) =
   map erase_timestamp (generate_signals dh cfg c2 symbol)"
  by (simp add: generate_signals_def erase_sorted_by_strength erase_unsorted_signals [of dh cfg c1 symbol c2])

lemma erase_fields:
  assumes "erase_timestamp a = erase_timestamp b"
  shows "sig_type a = sig_type b" "sig_direction a = sig_direction b" "sig_price a = sig_price b"
    "sig_stop_loss a = sig_stop_loss b" "sig_take_profit a = sig_take_profit b"
    "sig_strength a = sig_strength b" "sig_pattern a = sig_pattern b"
  using arg_cong [OF assms, of sig_type] arg_cong [OF assms, of sig_direction]
    arg_cong [OF assms, of sig_price] arg_cong [OF assms, of sig_stop_loss]
    arg_cong [OF assms, of sig_take_profit] arg_cong [OF assms, of sig_strength]
    arg_cong [OF assms, of sig_pattern]
  by (simp_all add: erase_timestamp_def)

lemma enter_erase:
  assumes "map erase_timestamp s1 = map erase_timestamp s2"
  shows "enter bt d s1 st = enter bt d s2 st"
proof (cases s1)
  case Nil
  then have "s2 = []" using assms by simp
  with Nil show ?thesis by simp
next
  case (Cons a as)
  then obtain b bs where s2: "s2 = b # bs" and ab: "erase_timestamp a = erase_timestamp b"
    using assms by (cases s2) auto
  note f = erase_fields [OF ab]
  show ?thesis
    unfolding Cons s2
    by (simp add: enter_def admission_def f Let_def split: sum.splits)
qed

lemma bar_step_clock:
  "bar_step bt dh c1 symbol df i st = bar_step bt dh c2 symbol df i st"
  unfolding bar_step_def Let_def
  by (simp add: enter_erase [OF erase_generate_signals [of dh default_config c1 symbol c2]])

lemma run_bars_clock:
  "run_bars bt dh cs1 symbol df is st = run_bars bt dh cs2 symbol df is st"
proof (induction "is" arbitrary: st)
  case Nil
  show ?case by simp
next
  case (Cons i "is")
  show ?case
    by (simp add: bar_step_clock [of bt dh "cs1 i" symbol df i st "cs2 i"] Cons.IH split: sum.splits)
qed

text \<open>
  The clock does not reach the result: two runs that get the same answers from the data
  handler return the same report, whatever \<^verbatim>\<open>datetime.now()\<close> reads in either.
\<close>

lemma run_backtest_clock_independent:
  "run_backtest bt dh clocks1 symbol start_date end_date interval =
   run_backtest bt dh clocks2 symbol start_date end_date interval"
  by (simp add: run_backtest_def Let_def run_bars_clock [of bt dh clocks1 _ _ _ _ clocks2])


subsection \<open>Lookahead\<close>

text \<open>
  The signals offered to step 3 do not come from the bars of the run: whatever the frame
  and the bar index, they are what the agent generates from the data handler's answer to
  its own trailing-period request.
\<close>

lemma admitted_at_first_bar:
  "admitted_at bt dh clocks symbol df 100 =
     admission bt (initial_capital bt) (generate_signals dh default_config (clocks 100) symbol)"
  by (simp add: admitted_at_def bar_state_before_entry_def exit_positions_def record_equity_def
      initial_state_def Let_def)

text \<open>
  C1 does not hold: the flat market of 130 bars and the market that swings after the bar
  index 100 agree on the bars 0 to 100, yet at the bar index 100 step 3 admits nothing on
  the first and an order-block signal (entry 101, stop 93.5, target 146, strength 0.8,
  26 units) on the second, because the agent reads the last 29 bars of the series.
\<close>

theorem step3_reads_later_bars:
  "take 101 (rows gapped_market) = take 101 (rows (flat_frame 130)) \<and>
   admitted_at default_backtester (trailing_handler 29 (flat_frame 130)) (\<lambda>i. no_clock)
       ''NQ=F'' (flat_frame 130) 100
     = Inr None \<and>
   admitted_at default_backtester (trailing_handler 29 gapped_market) (\<lambda>i. no_clock)
       ''NQ=F'' gapped_market 100
     = Inr (Some
         (\<lparr>sig_type = ''ORDERBLOCK_ENTRY'', sig_direction = ''BULLISH'', sig_price = 101,
           sig_stop_loss = 187 / 2, sig_take_profit = 146, sig_strength = 4 / 5,
           sig_timestamp = [], sig_pattern = ''Order Block''\<rparr>, 26))"
proof -
  have prefix: "take 101 (rows gapped_market) = take 101 (rows (flat_frame 130))"
    by code_simp
  have calm: "admission default_backtester (initial_capital default_backtester)
       (generate_signals (trailing_handler 29 (flat_frame 130)) default_config no_clock ''NQ=F'')
     = Inr None"
    by code_simp
  have swing: "admission default_backtester (initial_capital default_backtester)
       (generate_signals (trailing_handler 29 gapped_market) default_config no_clock ''NQ=F'')
     = Inr (Some
         (\<lparr>sig_type = ''ORDERBLOCK_ENTRY'', sig_direction = ''BULLISH'', sig_price = 101,
           sig_stop_loss = 187 / 2, sig_take_profit = 146, sig_strength = 4 / 5,
           sig_timestamp = [], sig_pattern = ''Order Block''\<rparr>, 26))"
    by code_simp
  from prefix calm swing show ?thesis
    by (simp only: admitted_at_first_bar) 
qed

end
